theory Spec2Isabelle
  imports Complex_Main "HOL-Library.Sublist" "HOL-Library.Char_ord" "HOL-Library.List_Lexorder"
begin

section \<open>Errors and numbers\<close>

text \<open>
  The hub raises typed errors (\<^verbatim>\<open>errors.ts\<close>); every \<^verbatim>\<open>throw\<close> of the source is an
  \<open>Inl\<close> of the model. \<open>ValidationError\<close> and \<open>NotEnoughProofError\<close> carry the message the
  source builds. The message of a \<open>PayloadTooLargeError\<close> names two numbers, the configured
  limit in megabytes and the rejected size as \<^verbatim>\<open>bytesToMegabytes\<close> reports it: the
  constructor carries the two numbers instead of the sentence. \<open>RangeError\<close> and
  \<open>SyntaxError\<close> are the errors of the JavaScript built-ins \<^verbatim>\<open>toFixed\<close> and
  \<^verbatim>\<open>JSON.parse\<close>.
\<close>

datatype error =
    ValidationError string
  | NotEnoughProofError string
  | PayloadTooLargeError rat rat
  | DoesNotExist
  | DriverError string
  | RangeError
  | SyntaxError

fun isValidationError :: "error \<Rightarrow> bool" where
  "isValidationError (ValidationError msg) = True"
| "isValidationError e = False"

fun isNotEnoughProofError :: "error \<Rightarrow> bool" where
  "isNotEnoughProofError (NotEnoughProofError msg) = True"
| "isNotEnoughProofError e = False"

fun isPayloadTooLargeError :: "error \<Rightarrow> bool" where
  "isPayloadTooLargeError (PayloadTooLargeError limitMB rejectedMB) = True"
| "isPayloadTooLargeError e = False"

text \<open>
  A JavaScript number as \<^verbatim>\<open>parseInt\<close> returns one: not-a-number, an infinity, or a double
  whose value is an integer; \<open>Num n\<close> is the double of value \<open>n\<close>, and a comparison of two
  finite numbers compares their values. Sizes and limits that the configuration gives in
  megabytes may be fractions; they are rationals here.
\<close>

datatype number = NaN | Infinity | NegInfinity | Num int

fun isFinite :: "number \<Rightarrow> bool" where
  "isFinite (Num n) = True"
| "isFinite x = False"

text \<open>\<^verbatim>\<open>x > y\<close> for a number \<open>x\<close> and a finite \<open>y\<close>: false for \<open>NaN\<close>.\<close>

fun greaterThan :: "number \<Rightarrow> rat \<Rightarrow> bool" where
  "greaterThan (Num n) y = (y < of_int n)"
| "greaterThan Infinity y = True"
| "greaterThan x y = False"

text \<open>
  Digits of a radix and the value of a string of them: a decimal cursor or timestamp read
  back by the in-memory driver and the revocation clock below.
\<close>

definition digitValue :: "char \<Rightarrow> nat option" where
  "digitValue c =
     (let k = of_char c :: nat in
      if 48 \<le> k \<and> k \<le> 57 then Some (k - 48)
      else if 97 \<le> k \<and> k \<le> 122 then Some (k - 87)
      else if 65 \<le> k \<and> k \<le> 90 then Some (k - 55)
      else None)"

definition isDigitOf :: "nat \<Rightarrow> char \<Rightarrow> bool" where
  "isDigitOf radix c = (case digitValue c of None \<Rightarrow> False | Some v \<Rightarrow> v < radix)"

definition digitsValue :: "nat \<Rightarrow> string \<Rightarrow> nat" where
  "digitsValue radix ds = foldl (\<lambda>acc c. acc * radix + (case digitValue c of None \<Rightarrow> 0 | Some v \<Rightarrow> v)) 0 ds"

text \<open>Decimal digits of a natural number, as a template literal prints an integer.\<close>

fun showNat :: "nat \<Rightarrow> string" where
  "showNat n = (if n < 10 then [''0123456789'' ! n] else showNat (n div 10) @ [''0123456789'' ! (n mod 10)])"

declare showNat.simps [simp del]

section \<open>utils.ts\<close>

definition alphabet :: string where
  "alphabet = ''0123456789ABCDEFGHIJKLMNOPQRSTUVWXYZabcdefghijklmnopqrstuvwxyz''"

text \<open>
  \<^verbatim>\<open>nanoid/generate\<close> is a library: \<^verbatim>\<open>nanoid(alphabet, size)\<close> draws \<open>size\<close> characters of
  the alphabet at random. The random choice is an input of the model, a function from the
  position to a number that selects the character.
\<close>

definition nanoid :: "(nat \<Rightarrow> nat) \<Rightarrow> string \<Rightarrow> nat \<Rightarrow> string" where
  "nanoid randomIndex abc n = map (\<lambda>k. abc ! (randomIndex k mod length abc)) [0..<n]"

definition generateUniqueID :: "(nat \<Rightarrow> nat) \<Rightarrow> string" where
  "generateUniqueID randomIndex = nanoid randomIndex alphabet 10"

definition megabytesToBytes :: "rat \<Rightarrow> rat" where
  "megabytesToBytes megabytes = megabytes * 1024 * 1024"

text \<open>
  \<^verbatim>\<open>Number.parseFloat(x.toFixed(digits))\<close>. \<^verbatim>\<open>toFixed\<close> raises \<open>RangeError\<close> for more than
  100 digits; from \<open>10 ^ 21\<close> on it prints the number itself; below, it prints the sign of a
  negative \<open>x\<close> and then \<open>n / 10 ^ digits\<close> for the integer \<open>n\<close> that brings it closest to the
  magnitude of \<open>x\<close>, the larger \<open>n\<close> of two: a tie is rounded away from zero. The string read
  back is that rational.
\<close>

definition toFixed :: "rat \<Rightarrow> nat \<Rightarrow> error + rat" where
  "toFixed x digits =
     (if 100 < digits then Inl RangeError
      else if 10 ^ 21 \<le> \<bar>x\<bar> then Inr x
      else if x < 0 then Inr (- (of_int \<lfloor>- x * 10 ^ digits + 1 / 2\<rfloor> / 10 ^ digits))
      else Inr (of_int \<lfloor>x * 10 ^ digits + 1 / 2\<rfloor> / 10 ^ digits))"

definition bytesToMegabytes :: "rat \<Rightarrow> nat \<Rightarrow> error + rat" where
  "bytesToMegabytes bytes decimals = toFixed (bytes / (1024 / 1024)) decimals"

text \<open>
  The state of a request is threaded through the calls that read or change it: a
  computation takes the state and returns a result or an error, and the state it leaves.
\<close>

type_synonym ('a, 's) action = "'s \<Rightarrow> (error + 'a) \<times> 's"

definition returnM :: "'a \<Rightarrow> ('a, 's) action" where
  "returnM x = (\<lambda>s. (Inr x, s))"

definition throwM :: "error \<Rightarrow> ('a, 's) action" where
  "throwM e = (\<lambda>s. (Inl e, s))"

definition liftE :: "error + 'a \<Rightarrow> ('a, 's) action" where
  "liftE r = (\<lambda>s. (r, s))"

definition bindM :: "('a, 's) action \<Rightarrow> ('a \<Rightarrow> ('b, 's) action) \<Rightarrow> ('b, 's) action" where
  "bindM m f = (\<lambda>s. case m s of (Inl e, s') \<Rightarrow> (Inl e, s') | (Inr x, s') \<Rightarrow> f x s')"

text \<open>
  A chunk is a buffer of bytes. The request stream is the list of its chunks. What comes
  out of the monitored stream is the chunks that passed, and the error that ended it when
  one did.
\<close>

type_synonym chunk = string

type_synonym monitoredStream = "chunk list \<times> error option"

text \<open>
  The transform of the \<^verbatim>\<open>PassThrough\<close>: each chunk adds its length to
  \<open>monitoredContentSize\<close>, the callback is called with the new total, and the chunk passes
  unless the callback throws; then the stream ends with that error.
\<close>

fun transform :: "(nat \<Rightarrow> nat \<Rightarrow> (unit, 's) action) \<Rightarrow> nat \<Rightarrow> chunk list \<Rightarrow> 's \<Rightarrow> monitoredStream \<times> 's" where
  "transform progressCallback monitoredContentSize [] s = (([], None), s)"
| "transform progressCallback monitoredContentSize (c # cs) s =
     (case progressCallback (monitoredContentSize + length c) (length c) s of
        (Inl e, s') \<Rightarrow> (([], Some e), s')
      | (Inr u, s') \<Rightarrow>
          (case transform progressCallback (monitoredContentSize + length c) cs s' of
             ((passed, ended), s'') \<Rightarrow> ((c # passed, ended), s'')))"

record monitorStreamResult =
  monitoredStream :: monitoredStream
  pipelinePromise :: "error + unit"

text \<open>
  \<^verbatim>\<open>monitorStreamProgress\<close>. The pipeline runs as the consumer reads; the model runs it to
  the end of the input or to the first error, which is what a consumer that reads the
  stream to its end sees. The pipeline's promise is rejected with the error that ended
  the stream.
\<close>

definition monitorStreamProgress ::
  "chunk list \<Rightarrow> (nat \<Rightarrow> nat \<Rightarrow> (unit, 's) action) \<Rightarrow> 's \<Rightarrow> monitorStreamResult \<times> 's" where
  "monitorStreamProgress inputStream progressCallback s =
     (case transform progressCallback 0 inputStream s of
        (monitorStream, s') \<Rightarrow>
          (\<lparr>monitoredStream = monitorStream,
            pipelinePromise = (case snd monitorStream of None \<Rightarrow> Inr () | Some e \<Rightarrow> Inl e)\<rparr>, s'))"

subsection \<open>AsyncMutexScope\<close>

text \<open>
  The scope holds the set \<open>opened\<close>. A promise is a handle; \<open>onFinally\<close> lists the
  \<^verbatim>\<open>finally\<close> callbacks the scope has attached, each as the promise and the key the callback
  deletes. The record is extensible: whatever else \<open>spawnOwner\<close> can change is the rest of
  the state. \<open>spawnOwner\<close> runs on the state (it may call \<open>tryAcquire\<close> itself) and either
  throws or returns its promise.
\<close>

record asyncMutexScope =
  opened :: "string set"
  onFinally :: "(nat \<times> string) list"

definition openedCount :: "'a asyncMutexScope_scheme \<Rightarrow> nat" where
  "openedCount s = card (opened s)"



section \<open>ProofChecker.ts\<close>

text \<open>
  What a request cannot decide is its environment: the clock, the random source of
  \<^verbatim>\<open>nanoid\<close>, the social-proof collaborator (\<^verbatim>\<open>fetch\<close>, \<^verbatim>\<open>verifyProfileToken\<close> and
  \<^verbatim>\<open>validateProofs\<close> of the blockstack library: for the URL of a profile and an address,
  the proofs found, each valid or not, or nothing when any of the three throws), which
  of two promises awaited together is rejected first, and the built-in \<^verbatim>\<open>parseInt\<close> of the
  JavaScript runtime, applied to the \<^verbatim>\<open>content-length\<close> header as the request carries it,
  a string or nothing. \<^verbatim>\<open>parseInt\<close> skips the white space of the language, Unicode's
  included, reads a sign, a \<^verbatim>\<open>0x\<close> prefix and the digits of the radix, and returns a double,
  the nearest to the digits read up to what the language leaves to the engine, or \<open>NaN\<close>
  when there is no digit. The hub is modelled over the function as the runtime gives it:
  what is proved of the hub holds for whatever \<^verbatim>\<open>parseInt\<close> returns.
\<close>

record environment =
  dateNow :: nat
  randomIndex :: "nat \<Rightarrow> nat"
  profileProofs :: "string \<Rightarrow> string \<Rightarrow> bool list option"
  driverRejectsFirst :: bool
  parseInt :: "string option \<Rightarrow> number"

record proofChecker =
  proofsRequired :: int

definition ProofChecker :: "int option \<Rightarrow> proofChecker" where
  "ProofChecker proofsConfig =
     (case proofsConfig of
        None \<Rightarrow> \<lparr>proofsRequired = 0\<rparr>
      | Some required \<Rightarrow> \<lparr>proofsRequired = required\<rparr>)"

definition validEnough :: "proofChecker \<Rightarrow> bool list \<Rightarrow> bool" where
  "validEnough pc validProofs = (proofsRequired pc \<le> int (length validProofs))"

section \<open>The storage driver\<close>

text \<open>
  Modelled from the spec: \<^verbatim>\<open>driverModel.ts\<close>, the interface of a storage driver, is not
  among the sources. The operations are those of section 4.1 of the specification, with
  the argument fields the hub fills in. A driver is any implementation of them over a
  state of its own. A listing holds names, or entries with a name and metadata, and the
  cursor of the next page when there is one. \<open>performWrite\<close> is given the monitored stream
  as the consumer that reads it to its end sees it.
\<close>

record performReadArgs =
  storageTopLevel :: string
  path :: string

record performRenameArgs = performReadArgs +
  newPath :: string

record performWriteArgs = performReadArgs +
  stream :: monitoredStream
  contentType :: string
  contentLength :: number

record performListFilesArgs =
  pathPrefix :: string
  pageArg :: "string option"

record listFilesStatEntry =
  name :: string
  entrySize :: nat
  mtime :: nat
  etag :: string

record 'e listFilesResult =
  entries :: "'e list"
  page :: "string option"

record 'd driverModel =
  performWrite :: "performWriteArgs \<Rightarrow> 'd \<Rightarrow> (error + string) \<times> 'd"
  performDelete :: "performReadArgs \<Rightarrow> 'd \<Rightarrow> (error + unit) \<times> 'd"
  performRename :: "performRenameArgs \<Rightarrow> 'd \<Rightarrow> (error + unit) \<times> 'd"
  performRead :: "performReadArgs \<Rightarrow> 'd \<Rightarrow> (error + string) \<times> 'd"
  listFiles :: "performListFilesArgs \<Rightarrow> 'd \<Rightarrow> (error + string listFilesResult) \<times> 'd"
  listFilesStat :: "performListFilesArgs \<Rightarrow> 'd \<Rightarrow> (error + listFilesStatEntry listFilesResult) \<times> 'd"
  driverReadURLPrefix :: string

text \<open>
  The state a request works on: the driver's state, the driver operations called so far
  (a log the model keeps, in the order of the calls), the revocation clock's cache, the
  profile URLs fetched for proof checks (a log as well), and what the request stream was
  destroyed with, if it was.
\<close>

datatype driverCall =
    PerformWrite string string
  | PerformDelete string string
  | PerformRename string string string
  | PerformRead string string
  | ListFiles string "string option"
  | ListFilesStat string "string option"

record 'd world =
  driverState :: 'd
  driverCalls :: "driverCall list"
  timestampCache :: "(string \<times> nat) list"
  fetchedURLs :: "string list"
  destroyedWith :: "error option"

definition callDriver :: "driverCall \<Rightarrow> ('d \<Rightarrow> (error + 'a) \<times> 'd) \<Rightarrow> ('a, 'd world) action" where
  "callDriver called operation w =
     (case operation (driverState w) of
        (r, d') \<Rightarrow> (r, w\<lparr>driverState := d', driverCalls := driverCalls w @ [called]\<rparr>))"

subsection \<open>A driver that keeps its objects in memory\<close>

text \<open>
  Modelled from the spec: no driver is among the sources. This one is an example of a
  driver that keeps to section 4.1: a write consumes the stream and, when the stream ends
  with an error, fails with that error and leaves the store as it was (section 4.1 asks
  for no partial object, as far as the backend can, and lets other drivers leave one);
  delete and rename fail with \<open>DoesNotExist\<close> when the object is absent, and a rename may
  overwrite its destination; the read URL is the driver's prefix, the top level, a slash
  and the path; a listing is in lexicographic order, a page at a time, and its cursor is
  the offset of the next page.
\<close>

type_synonym memoryStore = "((string \<times> string) \<times> (string \<times> string)) list"

definition storeRemove :: "string \<times> string \<Rightarrow> memoryStore \<Rightarrow> memoryStore" where
  "storeRemove k st = filter (\<lambda>kv. fst kv \<noteq> k) st"

definition storePut :: "string \<times> string \<Rightarrow> string \<times> string \<Rightarrow> memoryStore \<Rightarrow> memoryStore" where
  "storePut k v st = (k, v) # storeRemove k st"

definition memoryPerformWrite :: "string \<Rightarrow> performWriteArgs \<Rightarrow> memoryStore \<Rightarrow> (error + string) \<times> memoryStore" where
  "memoryPerformWrite urlPrefix args st =
     (case snd (stream args) of
        Some e \<Rightarrow> (Inl e, st)
      | None \<Rightarrow>
          (Inr (urlPrefix @ storageTopLevel args @ ''/'' @ path args),
           storePut (storageTopLevel args, path args) (contentType args, concat (fst (stream args))) st))"

definition memoryPerformDelete :: "performReadArgs \<Rightarrow> memoryStore \<Rightarrow> (error + unit) \<times> memoryStore" where
  "memoryPerformDelete args st =
     (case map_of st (storageTopLevel args, path args) of
        None \<Rightarrow> (Inl DoesNotExist, st)
      | Some file \<Rightarrow> (Inr (), storeRemove (storageTopLevel args, path args) st))"

definition memoryPerformRename :: "performRenameArgs \<Rightarrow> memoryStore \<Rightarrow> (error + unit) \<times> memoryStore" where
  "memoryPerformRename args st =
     (case map_of st (storageTopLevel args, path args) of
        None \<Rightarrow> (Inl DoesNotExist, st)
      | Some file \<Rightarrow>
          (Inr (), storePut (storageTopLevel args, newPath args) file
                     (storeRemove (storageTopLevel args, path args) st)))"

definition memoryPerformRead :: "performReadArgs \<Rightarrow> memoryStore \<Rightarrow> (error + string) \<times> memoryStore" where
  "memoryPerformRead args st =
     (case map_of st (storageTopLevel args, path args) of
        None \<Rightarrow> (Inl DoesNotExist, st)
      | Some file \<Rightarrow> (Inr (snd file), st))"

definition pageOffset :: "string option \<Rightarrow> nat" where
  "pageOffset cursor = (case cursor of None \<Rightarrow> 0 | Some c \<Rightarrow> digitsValue 10 (takeWhile (isDigitOf 10) c))"

definition memoryListPage :: "nat \<Rightarrow> string option \<Rightarrow> 'e list \<Rightarrow> 'e listFilesResult" where
  "memoryListPage pageSize cursor ordered =
     \<lparr>entries = take pageSize (drop (pageOffset cursor) ordered),
      page = (if pageOffset cursor + pageSize < length ordered
              then Some (showNat (pageOffset cursor + pageSize)) else None)\<rparr>"

definition memoryNames :: "string \<Rightarrow> memoryStore \<Rightarrow> string list" where
  "memoryNames topLevel st = sort (map (\<lambda>kv. snd (fst kv)) (filter (\<lambda>kv. fst (fst kv) = topLevel) st))"

definition memoryListFiles :: "nat \<Rightarrow> performListFilesArgs \<Rightarrow> memoryStore \<Rightarrow> (error + string listFilesResult) \<times> memoryStore" where
  "memoryListFiles pageSize args st =
     (Inr (memoryListPage pageSize (pageArg args) (memoryNames (pathPrefix args) st)), st)"

definition memoryStat :: "memoryStore \<Rightarrow> string \<Rightarrow> string \<Rightarrow> listFilesStatEntry" where
  "memoryStat st topLevel p =
     \<lparr>name = p,
      entrySize = (case map_of st (topLevel, p) of None \<Rightarrow> 0 | Some file \<Rightarrow> length (snd file)),
      mtime = 0, etag = []\<rparr>"

definition memoryListFilesStat :: "nat \<Rightarrow> performListFilesArgs \<Rightarrow> memoryStore \<Rightarrow> (error + listFilesStatEntry listFilesResult) \<times> memoryStore" where
  "memoryListFilesStat pageSize args st =
     (Inr (memoryListPage pageSize (pageArg args)
             (map (memoryStat st (pathPrefix args)) (memoryNames (pathPrefix args) st))), st)"

definition memoryDriver :: "string \<Rightarrow> nat \<Rightarrow> memoryStore driverModel" where
  "memoryDriver urlPrefix pageSize =
     \<lparr>performWrite = memoryPerformWrite urlPrefix,
      performDelete = memoryPerformDelete,
      performRename = memoryPerformRename,
      performRead = memoryPerformRead,
      listFiles = memoryListFiles pageSize,
      listFilesStat = memoryListFilesStat pageSize,
      driverReadURLPrefix = urlPrefix\<rparr>"

section \<open>ProofChecker.checkProofs\<close>

text \<open>
  \<open>fetchProfile\<close> fetches \<open>readURL\<close>, the address and \<^verbatim>\<open>/profile.json\<close>; the fetch is logged.
  \<open>checkProofs\<close> returns at once when no proof is required or the file is a profile;
  otherwise it fetches, verifies and counts the valid proofs, and any exception on the way
  is \<open>NotEnoughProofError\<close>.
\<close>

definition fetchProfile :: "environment \<Rightarrow> string \<Rightarrow> string \<Rightarrow> 'd world \<Rightarrow> bool list option \<times> 'd world" where
  "fetchProfile env address readURLPrefix w =
     (let filename = address @ ''/profile.json'';
          url = readURLPrefix @ filename
      in (profileProofs env url address, w\<lparr>fetchedURLs := fetchedURLs w @ [url]\<rparr>))"

definition checkProofs :: "proofChecker \<Rightarrow> environment \<Rightarrow> string \<Rightarrow> string \<Rightarrow> string \<Rightarrow> (bool, 'd world) action" where
  "checkProofs pc env address filename readURLPrefix w =
     (if proofsRequired pc = 0 \<or> suffix ''/profile.json'' filename then (Inr True, w)
      else
        (case fetchProfile env address readURLPrefix w of
           (None, w') \<Rightarrow> (Inl (NotEnoughProofError ''Error fetching and verifying social proofs''), w')
         | (Some proofs, w') \<Rightarrow>
             (let validProofs = filter (\<lambda>p. p) proofs in
              if validEnough pc validProofs then (Inr True, w')
              else (Inl (NotEnoughProofError ''Not enough social proofs for gaia hub writes''), w'))))"

section \<open>Tokens, scopes and the revocation clock\<close>

text \<open>
  The six scope lists of a token, as \<^verbatim>\<open>getAuthenticationScopes\<close> returns them to the hub.
\<close>

record authScopeValues =
  writePrefixes :: "string list"
  writePaths :: "string list"
  deletePrefixes :: "string list"
  deletePaths :: "string list"
  writeArchivalPrefixes :: "string list"
  writeArchivalPaths :: "string list"

text \<open>
  Modelled from the spec: \<^verbatim>\<open>authentication.ts\<close> (\<^verbatim>\<open>validateAuthorizationHeader\<close> and
  \<^verbatim>\<open>getAuthenticationScopes\<close>) is not among the sources. A bearer token is taken as
  decoded: whether its signature verifies, whether its association chain does, the
  principal its root key derives to, whether its hub-URL claim matches this hub, its
  \<open>iat\<close> and its scopes. The header may be missing, or not a bearer token at all.
  Verification follows the order of section 4.2: envelope, signature, chain, principal,
  hub URL, and the revocation clock, which rejects a token whose \<open>iat\<close> is older than the
  timestamp the caller passes; a caller that passes none gets no such comparison. Every
  failure is a \<open>ValidationError\<close>, its message the name section 4.2 gives it.
\<close>

record token =
  signatureValid :: bool
  associationValid :: bool
  signingPrincipal :: string
  hubUrlMatches :: bool
  iat :: nat
  scopes :: authScopeValues

datatype authorizationHeader = Malformed | Bearer token

definition validateAuthorizationHeader ::
  "authorizationHeader option \<Rightarrow> string \<Rightarrow> string \<Rightarrow> bool \<Rightarrow> string list option \<Rightarrow> nat option \<Rightarrow> error + string" where
  "validateAuthorizationHeader authHeader server address requireCorrectHub validUrls oldestValidTokenTimestamp =
     (case authHeader of
        None \<Rightarrow> Inl (ValidationError ''BadTokenFormat'')
      | Some Malformed \<Rightarrow> Inl (ValidationError ''BadTokenFormat'')
      | Some (Bearer t) \<Rightarrow>
          if \<not> signatureValid t then Inl (ValidationError ''SignatureInvalid'')
          else if \<not> associationValid t then Inl (ValidationError ''AssociationInvalid'')
          else if signingPrincipal t \<noteq> address then Inl (ValidationError ''PrincipalMismatch'')
          else if requireCorrectHub \<and> \<not> hubUrlMatches t then Inl (ValidationError ''WrongHub'')
          else if (case oldestValidTokenTimestamp of None \<Rightarrow> False | Some oldest \<Rightarrow> iat t < oldest)
            then Inl (ValidationError ''Revoked'')
          else Inr (signingPrincipal t))"

definition getAuthenticationScopes :: "authorizationHeader option \<Rightarrow> error + authScopeValues" where
  "getAuthenticationScopes authHeader =
     (case authHeader of
        None \<Rightarrow> Inl (ValidationError ''BadTokenFormat'')
      | Some Malformed \<Rightarrow> Inl (ValidationError ''BadTokenFormat'')
      | Some (Bearer t) \<Rightarrow> Inr (scopes t))"

text \<open>
  Modelled from the spec: \<^verbatim>\<open>revocations.ts\<close> (\<^verbatim>\<open>AuthTimestampCache\<close>) is not among the
  sources. Section 4.3: the clock of a principal is kept in the driver under the key
  \<^verbatim>\<open>.authTimestamp\<close> of the principal, as the JSON object of its timestamp, and in an LRU
  cache of the configured size. \<open>getAuthTimestamp\<close> returns the cached value, or reads the
  driver, with 0 for \<open>DoesNotExist\<close>, and caches what it read. \<open>setAuthTimestamp\<close> ignores
  a timestamp lower than the current one; otherwise it writes the driver key and then
  the cache.
\<close>

record 'd authTimestampCache =
  cacheReadURLPrefix :: string
  cacheDriver :: "'d driverModel"
  cacheSize :: nat

definition AuthTimestampCache :: "string \<Rightarrow> 'd driverModel \<Rightarrow> nat \<Rightarrow> 'd authTimestampCache" where
  "AuthTimestampCache readURLPrefix drv maxCacheSize =
     \<lparr>cacheReadURLPrefix = readURLPrefix, cacheDriver = drv, cacheSize = maxCacheSize\<rparr>"

definition authTimestampFileName :: string where
  "authTimestampFileName = ''.authTimestamp''"

definition timestampJSON :: "nat \<Rightarrow> string" where
  "timestampJSON ts = ''{'' @ [CHR 0x22] @ ''timestamp'' @ [CHR 0x22] @ '':'' @ showNat ts @ ''}''"

definition parseTimestampJSON :: "string \<Rightarrow> error + nat" where
  "parseTimestampJSON content =
     (let opening = ''{'' @ [CHR 0x22] @ ''timestamp'' @ [CHR 0x22] @ '':'';
          digits = butlast (drop (length opening) content)
      in if prefix opening content \<and> suffix ''}'' content \<and> digits \<noteq> [] \<and> list_all (isDigitOf 10) digits
         then Inr (digitsValue 10 digits) else Inl SyntaxError)"

definition cachePut :: "nat \<Rightarrow> string \<Rightarrow> nat \<Rightarrow> (string \<times> nat) list \<Rightarrow> (string \<times> nat) list" where
  "cachePut capacity address ts cache = take capacity ((address, ts) # filter (\<lambda>e. fst e \<noteq> address) cache)"

definition cacheTimestamp :: "'d authTimestampCache \<Rightarrow> string \<Rightarrow> nat \<Rightarrow> (nat, 'd world) action" where
  "cacheTimestamp c address ts w =
     (Inr ts, w\<lparr>timestampCache := cachePut (cacheSize c) address ts (timestampCache w)\<rparr>)"

definition readAuthTimestamp :: "'d authTimestampCache \<Rightarrow> string \<Rightarrow> (nat, 'd world) action" where
  "readAuthTimestamp c address w =
     (case callDriver (PerformRead address authTimestampFileName)
             (performRead (cacheDriver c) \<lparr>storageTopLevel = address, path = authTimestampFileName\<rparr>) w of
        (Inl DoesNotExist, w') \<Rightarrow> (Inr 0, w')
      | (Inl e, w') \<Rightarrow> (Inl e, w')
      | (Inr content, w') \<Rightarrow> (parseTimestampJSON content, w'))"

definition getAuthTimestamp :: "'d authTimestampCache \<Rightarrow> string \<Rightarrow> (nat, 'd world) action" where
  "getAuthTimestamp c address w =
     (case map_of (timestampCache w) address of
        Some ts \<Rightarrow> cacheTimestamp c address ts w
      | None \<Rightarrow> bindM (readAuthTimestamp c address) (cacheTimestamp c address) w)"

definition writeAuthTimestamp :: "'d authTimestampCache \<Rightarrow> string \<Rightarrow> nat \<Rightarrow> (string, 'd world) action" where
  "writeAuthTimestamp c address ts =
     callDriver (PerformWrite address authTimestampFileName)
       (performWrite (cacheDriver c)
          \<lparr>storageTopLevel = address, path = authTimestampFileName,
           stream = ([timestampJSON ts], None), contentType = ''application/json'',
           contentLength = Num (int (length (timestampJSON ts)))\<rparr>)"

definition setAuthTimestamp :: "'d authTimestampCache \<Rightarrow> string \<Rightarrow> nat \<Rightarrow> (unit, 'd world) action" where
  "setAuthTimestamp c address ts =
     bindM (getAuthTimestamp c address) (\<lambda>current.
       if ts < current then returnM ()
       else bindM (writeAuthTimestamp c address ts) (\<lambda>url.
            bindM (cacheTimestamp c address ts) (\<lambda>cached. returnM ())))"

section \<open>server.ts: HubServer\<close>

text \<open>
  The configuration the constructor reads (\<^verbatim>\<open>HubConfigInterface\<close>), and the fields of the
  server. A setting that may be missing is an option.
\<close>

record hubConfig =
  configWhitelist :: "string list option"
  configServerName :: string
  configValidHubUrls :: "string list option"
  configReadURL :: "string option"
  configRequireCorrectHubUrl :: "bool option"
  configAuthTimestampCacheSize :: nat
  configMaxFileUploadSize :: "rat option"

record 'd hubServer =
  driver :: "'d driverModel"
  proofChecker :: proofChecker
  whitelist :: "string list option"
  serverName :: string
  readURL :: "string option"
  requireCorrectHubUrl :: bool
  validHubUrls :: "string list option"
  authTimestampCache :: "'d authTimestampCache"
  config :: hubConfig
  maxFileUploadSizeMB :: rat
  maxFileUploadSizeBytes :: rat

text \<open>\<^verbatim>\<open>if (this.readURL)\<close>: a missing or empty read URL gives the driver's prefix.\<close>

definition readURLPrefixOf :: "string option \<Rightarrow> 'd driverModel \<Rightarrow> string" where
  "readURLPrefixOf url drv =
     (case url of
        None \<Rightarrow> driverReadURLPrefix drv
      | Some u \<Rightarrow> if u \<noteq> [] then u else driverReadURLPrefix drv)"

definition getReadURLPrefix :: "'d hubServer \<Rightarrow> string" where
  "getReadURLPrefix hub = readURLPrefixOf (readURL hub) (driver hub)"

definition HubServer :: "'d driverModel \<Rightarrow> proofChecker \<Rightarrow> hubConfig \<Rightarrow> 'd hubServer" where
  "HubServer drv checker cfg =
     (let sizeMB = (case configMaxFileUploadSize cfg of
                      None \<Rightarrow> 20
                    | Some m \<Rightarrow> if m = 0 then 20 else m)
      in \<lparr>driver = drv,
          proofChecker = checker,
          whitelist = configWhitelist cfg,
          serverName = configServerName cfg,
          readURL = configReadURL cfg,
          requireCorrectHubUrl = (case configRequireCorrectHubUrl cfg of None \<Rightarrow> False | Some b \<Rightarrow> b),
          validHubUrls = configValidHubUrls cfg,
          authTimestampCache =
            AuthTimestampCache (readURLPrefixOf (configReadURL cfg) drv) drv (configAuthTimestampCacheSize cfg),
          config = cfg,
          maxFileUploadSizeMB = sizeMB,
          maxFileUploadSizeBytes = megabytesToBytes sizeMB\<rparr>)"

record requestHeaders =
  contentTypeHeader :: "string option"
  contentLengthHeader :: "string option"
  authorization :: "authorizationHeader option"

definition validate :: "'d hubServer \<Rightarrow> string \<Rightarrow> requestHeaders \<Rightarrow> nat option \<Rightarrow> error + unit" where
  "validate hub address headers oldestValidTokenTimestamp =
     (case validateAuthorizationHeader (authorization headers) (serverName hub) address
             (requireCorrectHubUrl hub) (validHubUrls hub) oldestValidTokenTimestamp of
        Inl e \<Rightarrow> Inl e
      | Inr signingAddress \<Rightarrow>
          (case whitelist hub of
             None \<Rightarrow> Inr ()
           | Some allowed \<Rightarrow>
               if signingAddress \<notin> set allowed
               then Inl (ValidationError (''Address '' @ signingAddress @ '' not authorized for writes''))
               else Inr ()))"

definition handleAuthBump :: "'d hubServer \<Rightarrow> string \<Rightarrow> nat \<Rightarrow> requestHeaders \<Rightarrow> (unit, 'd world) action" where
  "handleAuthBump hub address oldestValidTimestamp headers =
     bindM (liftE (validate hub address headers None)) (\<lambda>validated.
       setAuthTimestamp (authTimestampCache hub) address oldestValidTimestamp)"

text \<open>\<^verbatim>\<open>filePath.split('/')\<close>: the parts between the slashes, never an empty list.\<close>

fun splitOn :: "char \<Rightarrow> string \<Rightarrow> string list" where
  "splitOn sep [] = [[]]"
| "splitOn sep (c # cs) =
     (if c = sep then [] # splitOn sep cs
      else (case splitOn sep cs of
              [] \<Rightarrow> [[c]]
            | part # parts \<Rightarrow> (c # part) # parts))"

definition getFileName :: "string \<Rightarrow> string" where
  "getFileName filePath =
     (let pathParts = splitOn CHR ''/'' filePath;
          fileName = pathParts ! (length pathParts - 1)
      in fileName)"

definition getHistoricalFileName :: "environment \<Rightarrow> string \<Rightarrow> string" where
  "getHistoricalFileName env filePath =
     (let fileName = getFileName filePath;
          filePathPrefix = take (length filePath - length fileName) filePath;
          historicalName = ''.history.'' @ showNat (dateNow env) @ ''.'' @ generateUniqueID (randomIndex env)
                             @ ''.'' @ fileName;
          historicalPath = filePathPrefix @ historicalName
      in historicalPath)"

definition isHistoricalFile :: "string \<Rightarrow> bool" where
  "isHistoricalFile filePath =
     (let fileName = getFileName filePath;
          isHistorical = prefix ''.history.'' fileName
      in isHistorical)"

text \<open>
  \<^verbatim>\<open>!!list.find(pred)\<close>: \<^verbatim>\<open>find\<close> returns the first element that satisfies the predicate, or
  \<^verbatim>\<open>undefined\<close>, and \<^verbatim>\<open>!!\<close> makes a boolean of it: false for \<^verbatim>\<open>undefined\<close> and for the empty
  string, true for every other string. The same truth value decides \<^verbatim>\<open>if (page)\<close>.
\<close>

definition truthy :: "string option \<Rightarrow> bool" where
  "truthy v = (case v of None \<Rightarrow> False | Some str \<Rightarrow> str \<noteq> [])"

definition isArchivalRestricted :: "authScopeValues \<Rightarrow> bool" where
  "isArchivalRestricted sc = (length (writeArchivalPaths sc) > 0 \<or> length (writeArchivalPrefixes sc) > 0)"

definition checkArchivalRestrictions :: "string \<Rightarrow> string \<Rightarrow> authScopeValues \<Rightarrow> error + bool" where
  "checkArchivalRestrictions address filePath sc =
     (let restricted = isArchivalRestricted sc in
      if restricted then
        (let match1 = truthy (find (\<lambda>p. prefix p filePath) (writeArchivalPrefixes sc));
             match2 = (if \<not> match1 then truthy (find (\<lambda>p. filePath = p) (writeArchivalPaths sc)) else match1)
         in if \<not> match2
            then Inl (ValidationError (''Address '' @ address @ '' not authorized to modify '' @ filePath @ '' by scopes''))
            else Inr restricted)
      else Inr restricted)"

text \<open>Lines 201 to 215 of \<^verbatim>\<open>handleRequest\<close>: the scopes that limit writes.\<close>

definition checkWriteScopes :: "string \<Rightarrow> string \<Rightarrow> authScopeValues \<Rightarrow> error + unit" where
  "checkWriteScopes address filePath sc =
     (if length (writePrefixes sc) > 0 \<or> length (writePaths sc) > 0 then
        (let match1 = truthy (find (\<lambda>p. prefix p filePath) (writePrefixes sc));
             match2 = (if \<not> match1 then truthy (find (\<lambda>p. filePath = p) (writePaths sc)) else match1)
         in if \<not> match2
            then Inl (ValidationError (''Address '' @ address @ '' not authorized to write to '' @ filePath @ '' by scopes''))
            else Inr ())
      else Inr ())"

text \<open>Lines 143 to 157 of \<^verbatim>\<open>handleDelete\<close>: the scopes that limit deletes.\<close>

definition checkDeleteScopes :: "string \<Rightarrow> string \<Rightarrow> authScopeValues \<Rightarrow> error + unit" where
  "checkDeleteScopes address filePath sc =
     (if length (deletePrefixes sc) > 0 \<or> length (deletePaths sc) > 0 then
        (let match1 = truthy (find (\<lambda>p. prefix p filePath) (deletePrefixes sc));
             match2 = (if \<not> match1 then truthy (find (\<lambda>p. filePath = p) (deletePaths sc)) else match1)
         in if \<not> match2
            then Inl (ValidationError (''Address '' @ address @ '' not authorized to delete from '' @ filePath @ '' by scopes''))
            else Inr ())
      else Inr ())"

text \<open>
  Lines 84 to 99 of \<^verbatim>\<open>handleListFiles\<close>: historical files are filtered from a listing
  that is not empty, and a page that the filter empties gets the \<^verbatim>\<open>null\<close> marker when the
  driver gave a cursor. \<open>nameOf\<close> is the name of an entry (the entry itself, or its
  \<open>name\<close> field in a listing with metadata). In the result an entry is an option, \<open>None\<close>
  the marker.
\<close>

definition filterHistorical :: "bool \<Rightarrow> ('e \<Rightarrow> string) \<Rightarrow> 'e listFilesResult \<Rightarrow> 'e option listFilesResult" where
  "filterHistorical restricted nameOf listFileResult =
     (if restricted \<and> length (entries listFileResult) > 0 then
        (let kept = filter (\<lambda>entry. \<not> isHistoricalFile (nameOf entry)) (entries listFileResult) in
         if length kept = 0 \<and> truthy (page listFileResult)
         then \<lparr>entries = map Some kept @ [None], page = page listFileResult\<rparr>
         else \<lparr>entries = map Some kept, page = page listFileResult\<rparr>)
      else \<lparr>entries = map Some (entries listFileResult), page = page listFileResult\<rparr>)"

definition handleListFiles ::
  "'d hubServer \<Rightarrow> string \<Rightarrow> string option \<Rightarrow> bool \<Rightarrow> requestHeaders \<Rightarrow>
   (string option listFilesResult + listFilesStatEntry option listFilesResult, 'd world) action" where
  "handleListFiles hub address pageRequested stat headers =
     bindM (getAuthTimestamp (authTimestampCache hub) address) (\<lambda>oldestValidTokenTimestamp.
     bindM (liftE (getAuthenticationScopes (authorization headers))) (\<lambda>sc.
     bindM (liftE (validate hub address headers (Some oldestValidTokenTimestamp))) (\<lambda>validated.
       (let listFilesArgs = \<lparr>pathPrefix = address, pageArg = pageRequested\<rparr> in
        if stat then
          bindM (callDriver (ListFilesStat address pageRequested) (listFilesStat (driver hub) listFilesArgs))
            (\<lambda>listFileResult. returnM (Inr (filterHistorical (isArchivalRestricted sc) name listFileResult)))
        else
          bindM (callDriver (ListFiles address pageRequested) (listFiles (driver hub) listFilesArgs))
            (\<lambda>listFileResult. returnM (Inl (filterHistorical (isArchivalRestricted sc) (\<lambda>entry. entry) listFileResult)))))))"

definition handleDelete :: "'d hubServer \<Rightarrow> environment \<Rightarrow> string \<Rightarrow> string \<Rightarrow> requestHeaders \<Rightarrow> (unit, 'd world) action" where
  "handleDelete hub env address filePath headers =
     bindM (getAuthTimestamp (authTimestampCache hub) address) (\<lambda>oldestValidTokenTimestamp.
     bindM (liftE (validate hub address headers (Some oldestValidTokenTimestamp))) (\<lambda>validated.
     bindM (liftE (getAuthenticationScopes (authorization headers))) (\<lambda>sc.
     bindM (liftE (checkArchivalRestrictions address filePath sc)) (\<lambda>restricted.
     bindM (liftE (checkDeleteScopes address filePath sc)) (\<lambda>allowed.
     bindM (checkProofs (proofChecker hub) env address filePath (getReadURLPrefix hub)) (\<lambda>proved.
       if restricted then
         (let historicalPath = getHistoricalFileName env filePath;
              renameCommand = \<lparr>storageTopLevel = address, path = filePath, newPath = historicalPath\<rparr>
          in callDriver (PerformRename address filePath historicalPath) (performRename (driver hub) renameCommand))
       else
         (let deleteCommand = \<lparr>storageTopLevel = address, path = filePath\<rparr>
          in callDriver (PerformDelete address filePath) (performDelete (driver hub) deleteCommand))))))))"

text \<open>The value of a finite number; the hub reads it only after \<open>isFinite\<close>.\<close>

fun numberValue :: "number \<Rightarrow> rat" where
  "numberValue (Num n) = of_int n"
| "numberValue x = 0"

text \<open>
  Lines 231 to 253 of \<^verbatim>\<open>handleRequest\<close>: under archival scopes the canonical file is
  renamed to a historical name before the write; \<open>DoesNotExist\<close> is ignored, any other
  error is thrown again.
\<close>

definition archiveCanonicalFile :: "'d hubServer \<Rightarrow> environment \<Rightarrow> string \<Rightarrow> string \<Rightarrow> (unit, 'd world) action" where
  "archiveCanonicalFile hub env address filePath w =
     (let historicalPath = getHistoricalFileName env filePath in
      case callDriver (PerformRename address filePath historicalPath)
             (performRename (driver hub) \<lparr>storageTopLevel = address, path = filePath, newPath = historicalPath\<rparr>) w of
        (Inl DoesNotExist, w') \<Rightarrow> (Inr (), w')
      | (Inl e, w') \<Rightarrow> (Inl e, w')
      | (Inr u, w') \<Rightarrow> (Inr (), w'))"

text \<open>
  The progress callback of \<^verbatim>\<open>handleRequest\<close>: past \<open>maxContentLength\<close> it destroys the
  request stream with a \<open>PayloadTooLargeError\<close> and throws it.
\<close>

definition uploadProgress :: "'d hubServer \<Rightarrow> rat \<Rightarrow> nat \<Rightarrow> nat \<Rightarrow> (unit, 'd world) action" where
  "uploadProgress hub maxContentLength totalBytes chunkBytes w =
     (if maxContentLength < of_nat totalBytes then
        (case bytesToMegabytes (of_nat totalBytes) 4 of
           Inl e \<Rightarrow> (Inl e, w)
         | Inr rejected \<Rightarrow>
             (Inl (PayloadTooLargeError (maxFileUploadSizeMB hub) rejected),
              w\<lparr>destroyedWith := Some (PayloadTooLargeError (maxFileUploadSizeMB hub) rejected)\<rparr>))
      else (Inr (), w))"

text \<open>
  \<^verbatim>\<open>Promise.all\<close> of the driver's write and the pipeline: the URL when both succeed, the
  one error when one fails, and when both fail the error of the promise rejected first.
\<close>

definition awaitBoth :: "environment \<Rightarrow> error + string \<Rightarrow> error + unit \<Rightarrow> error + string" where
  "awaitBoth env written piped =
     (case written of
        Inr url \<Rightarrow> (case piped of Inr u \<Rightarrow> Inr url | Inl e \<Rightarrow> Inl e)
      | Inl e1 \<Rightarrow> (case piped of Inr u \<Rightarrow> Inl e1 | Inl e2 \<Rightarrow> if driverRejectsFirst env then Inl e1 else Inl e2))"

text \<open>Lines 283 to 289 of \<^verbatim>\<open>handleRequest\<close>: the rewrite of the URL the driver returned.\<close>

definition rewriteReadURL :: "'d hubServer \<Rightarrow> string \<Rightarrow> string" where
  "rewriteReadURL hub url =
     (let driverPrefix = driverReadURLPrefix (driver hub);
          readURLPrefix = getReadURLPrefix hub
      in if readURLPrefix \<noteq> driverPrefix \<and> prefix driverPrefix url
         then (let postFix = drop (length driverPrefix) url in readURLPrefix @ postFix)
         else url)"

text \<open>
  Lines 255 to 289 of \<^verbatim>\<open>handleRequest\<close>: the effective limit, the monitored stream, the
  driver's write awaited together with the pipeline, and the rewrite of the URL.
\<close>

definition streamUpload ::
  "'d hubServer \<Rightarrow> environment \<Rightarrow> string \<Rightarrow> string \<Rightarrow> string \<Rightarrow> number \<Rightarrow> chunk list \<Rightarrow> (string, 'd world) action" where
  "streamUpload hub env address filePath contentTypeGiven contentLengthBytes input w =
     (let maxContentLength =
            (if isFinite contentLengthBytes \<and> greaterThan contentLengthBytes 0
             then numberValue contentLengthBytes else maxFileUploadSizeBytes hub)
      in case monitorStreamProgress input (uploadProgress hub maxContentLength) w of
           (monitored, w1) \<Rightarrow>
             (let writeCommand =
                    \<lparr>storageTopLevel = address, path = filePath, stream = monitoredStream monitored,
                     contentType = contentTypeGiven, contentLength = contentLengthBytes\<rparr>
              in case callDriver (PerformWrite address filePath) (performWrite (driver hub) writeCommand) w1 of
                   (written, w2) \<Rightarrow>
                     (case awaitBoth env written (pipelinePromise monitored) of
                        Inl e \<Rightarrow> (Inl e, w2)
                      | Inr url \<Rightarrow> (Inr (rewriteReadURL hub url), w2))))"

definition handleRequest ::
  "'d hubServer \<Rightarrow> environment \<Rightarrow> string \<Rightarrow> string \<Rightarrow> requestHeaders \<Rightarrow> chunk list \<Rightarrow> (string, 'd world) action" where
  "handleRequest hub env address filePath headers input =
     bindM (getAuthTimestamp (authTimestampCache hub) address) (\<lambda>oldestValidTokenTimestamp.
     bindM (liftE (validate hub address headers (Some oldestValidTokenTimestamp))) (\<lambda>validated.
       (let contentTypeGiven = (case contentTypeHeader headers of
                                  None \<Rightarrow> ''application/octet-stream''
                                | Some given \<Rightarrow> given)
        in
     bindM (liftE (getAuthenticationScopes (authorization headers))) (\<lambda>sc.
     bindM (liftE (checkArchivalRestrictions address filePath sc)) (\<lambda>restricted.
     bindM (liftE (checkWriteScopes address filePath sc)) (\<lambda>allowed.
     bindM (checkProofs (proofChecker hub) env address filePath (getReadURLPrefix hub)) (\<lambda>proved.
       (let contentLengthBytes = parseInt env (contentLengthHeader headers);
            isLengthFinite = (isFinite contentLengthBytes \<and> greaterThan contentLengthBytes 0)
        in
        if isLengthFinite \<and> greaterThan contentLengthBytes (maxFileUploadSizeBytes hub) then
          (case bytesToMegabytes (numberValue contentLengthBytes) 4 of
             Inl e \<Rightarrow> throwM e
           | Inr rejected \<Rightarrow> throwM (PayloadTooLargeError (maxFileUploadSizeMB hub) rejected))
        else
          bindM (if restricted then archiveCanonicalFile hub env address filePath else returnM ())
            (\<lambda>archived. streamUpload hub env address filePath contentTypeGiven contentLengthBytes input)))))))))"

section \<open>What a driver may raise\<close>

text \<open>
  Modelled from the spec: section 7 names the errors that come from a driver,
  \<open>DoesNotExist\<close> for a missing object and \<open>DriverError\<close> for any other failure of the
  backend, and section 4.5 lets the error that ends the monitored stream propagate through
  the driver's write. A driver that keeps to this raises nothing else.
\<close>

fun isDriverError :: "error \<Rightarrow> bool" where
  "isDriverError DoesNotExist = True"
| "isDriverError (DriverError msg) = True"
| "isDriverError e = False"

definition raisesDriverErrors :: "'d driverModel \<Rightarrow> bool" where
  "raisesDriverErrors drv =
     ((\<forall>args d e. fst (performRead drv args d) = Inl e \<longrightarrow> isDriverError e) \<and>
      (\<forall>args d e. fst (performRename drv args d) = Inl e \<longrightarrow> isDriverError e) \<and>
      (\<forall>args d e. fst (performDelete drv args d) = Inl e \<longrightarrow> isDriverError e) \<and>
      (\<forall>args d e. fst (performWrite drv args d) = Inl e \<longrightarrow> isDriverError e \<or> snd (stream args) = Some e))"

text \<open>Whether an outcome is an error of a given kind.\<close>

fun rejectedWith :: "(error \<Rightarrow> bool) \<Rightarrow> (error + 'a) \<times> 's \<Rightarrow> bool" where
  "rejectedWith kind (Inl e, s) = kind e"
| "rejectedWith kind (Inr x, s) = False"

section \<open>Example data\<close>

text \<open>
  A principal, a hub over the in-memory driver, and the parts of a request, for the
  concrete instances below.
\<close>

definition examplePrincipal :: string where
  "examplePrincipal = ''1Lbcfr7sAHTD9CgdQo3HTMTkV8LK4ZnX71''"

definition exampleConfig :: hubConfig where
  "exampleConfig =
     \<lparr>configWhitelist = None, configServerName = ''hub.example'', configValidHubUrls = None,
      configReadURL = None, configRequireCorrectHubUrl = None, configAuthTimestampCacheSize = 8,
      configMaxFileUploadSize = Some 30\<rparr>"

definition exampleHub :: "hubConfig \<Rightarrow> memoryStore hubServer" where
  "exampleHub cfg = HubServer (memoryDriver ''http://store/'' 10) (ProofChecker None) cfg"

definition exampleWorld :: "memoryStore \<Rightarrow> (string \<times> nat) list \<Rightarrow> memoryStore world" where
  "exampleWorld objects cached =
     \<lparr>driverState = objects, driverCalls = [], timestampCache = cached, fetchedURLs = [],
      destroyedWith = None\<rparr>"

text \<open>
  The headers of the examples are missing or strings of decimal digits, of a value far
  below \<open>2 ^ 53\<close>: on these \<^verbatim>\<open>parseInt\<close> returns \<open>NaN\<close> and the value of the digits. The
  example environment answers \<open>NaN\<close> on every other header, none of which it is asked.
\<close>

definition parseDigits :: "string option \<Rightarrow> number" where
  "parseDigits header =
     (case header of
        None \<Rightarrow> NaN
      | Some str \<Rightarrow>
          if str \<noteq> [] \<and> list_all (isDigitOf 10) str then Num (int (digitsValue 10 str)) else NaN)"

definition exampleEnvironment :: environment where
  "exampleEnvironment =
     \<lparr>dateNow = 1600000000000, randomIndex = (\<lambda>k. 7 * k), profileProofs = (\<lambda>url address. None),
      driverRejectsFirst = False, parseInt = parseDigits\<rparr>"

definition noScopes :: authScopeValues where
  "noScopes =
     \<lparr>writePrefixes = [], writePaths = [], deletePrefixes = [], deletePaths = [],
      writeArchivalPrefixes = [], writeArchivalPaths = []\<rparr>"

definition exampleToken :: "nat \<Rightarrow> authScopeValues \<Rightarrow> token" where
  "exampleToken issued sc =
     \<lparr>signatureValid = True, associationValid = True, signingPrincipal = examplePrincipal,
      hubUrlMatches = True, iat = issued, scopes = sc\<rparr>"

definition exampleHeaders :: "string option \<Rightarrow> token \<Rightarrow> requestHeaders" where
  "exampleHeaders declaredLength t =
     \<lparr>contentTypeHeader = None, contentLengthHeader = declaredLength, authorization = Some (Bearer t)\<rparr>"

text \<open>A driver whose listing is a given page, whatever is asked.\<close>

definition listingDriver :: "string listFilesResult \<Rightarrow> memoryStore driverModel" where
  "listingDriver listed = (memoryDriver ''http://store/'' 10)\<lparr>listFiles := (\<lambda>args d. (Inr listed, d))\<rparr>"

section \<open>Evaluation and shared lemmas\<close>

lemmas monad_defs = bindM_def liftE_def returnM_def throwM_def

lemmas example_defs = exampleConfig_def exampleHub_def exampleEnvironment_def examplePrincipal_def
  exampleHeaders_def exampleToken_def noScopes_def exampleWorld_def

lemmas number_defs = parseDigits_def isDigitOf_def digitValue_def digitsValue_def
  megabytesToBytes_def

lemmas memory_defs = memoryDriver_def memoryPerformRead_def memoryPerformWrite_def memoryPerformRename_def
  memoryPerformDelete_def storePut_def storeRemove_def

lemmas clock_defs = showNat.simps getAuthTimestamp_def readAuthTimestamp_def cacheTimestamp_def cachePut_def callDriver_def
  AuthTimestampCache_def authTimestampFileName_def setAuthTimestamp_def writeAuthTimestamp_def
  timestampJSON_def parseTimestampJSON_def

lemmas auth_defs = validate_def validateAuthorizationHeader_def getAuthenticationScopes_def
  checkArchivalRestrictions_def isArchivalRestricted_def checkWriteScopes_def checkDeleteScopes_def truthy_def

lemmas hub_defs = showNat.simps HubServer_def ProofChecker_def checkProofs_def fetchProfile_def validEnough_def
  getReadURLPrefix_def readURLPrefixOf_def
  streamUpload_def monitorStreamProgress_def uploadProgress_def awaitBoth_def rewriteReadURL_def
  archiveCanonicalFile_def getHistoricalFileName_def getFileName_def generateUniqueID_def nanoid_def alphabet_def
  isHistoricalFile_def filterHistorical_def

lemma bindM_InlE:
  assumes "bindM m f w = (Inl e, w')"
  obtains (first) "m w = (Inl e, w')"
        | (second) x w1 where "m w = (Inr x, w1)" "f x w1 = (Inl e, w')"
  using assms by (auto simp: bindM_def split: prod.splits sum.splits)

lemma bindM_Inr [simp]: "m w = (Inr x, w1) \<Longrightarrow> bindM m f w = f x w1"
  by (simp add: bindM_def)

lemma bindM_Inl [simp]: "m w = (Inl e, w1) \<Longrightarrow> bindM m f w = (Inl e, w1)"
  by (simp add: bindM_def)

lemma liftE_apply [simp]: "liftE r w = (r, w)" by (simp add: liftE_def)
lemma returnM_apply [simp]: "returnM x w = (Inr x, w)" by (simp add: returnM_def)
lemma throwM_apply [simp]: "throwM e w = (Inl e, w)" by (simp add: throwM_def)

lemma bytesToMegabytes_4: "bytesToMegabytes x 4 \<noteq> Inl e"
  by (simp add: bytesToMegabytes_def toFixed_def)

lemma uploadProgress_error:
  "uploadProgress hub M t n w = (Inl e, w') \<Longrightarrow> isPayloadTooLargeError e"
  by (auto simp: uploadProgress_def bytesToMegabytes_4 split: if_splits sum.splits)

lemma transform_error:
  "transform (uploadProgress hub M) t cs w = ((passed, Some e), w') \<Longrightarrow> isPayloadTooLargeError e"
proof (induction cs arbitrary: t w passed)
  case Nil
  then show ?case by simp
next
  case (Cons c cs)
  then show ?case
    by (auto split: prod.splits sum.splits dest: uploadProgress_error)
qed

lemma getAuthTimestamp_error:
  assumes "getAuthTimestamp c address w = (Inl e, w')" "raisesDriverErrors (cacheDriver c)"
  shows "isDriverError e \<or> e = SyntaxError"
proof -
  have rd: "isDriverError e'" if "performRead (cacheDriver c) a d = (Inl e', d')" for a d e' d'
  proof -
    from that have "fst (performRead (cacheDriver c) a d) = Inl e'" by simp
    with assms(2) show ?thesis unfolding raisesDriverErrors_def by blast
  qed
  from assms(1) show ?thesis
    by (auto simp: getAuthTimestamp_def cacheTimestamp_def readAuthTimestamp_def parseTimestampJSON_def
          callDriver_def Let_def bindM_def
        split: option.splits prod.splits sum.splits error.splits if_splits dest: rd)
qed


lemma validate_error: "validate hub address headers oldest = Inl e \<Longrightarrow> isValidationError e"
  by (auto simp: validate_def validateAuthorizationHeader_def
      split: sum.splits option.splits authorizationHeader.splits if_splits)

lemma getAuthenticationScopes_error: "getAuthenticationScopes h = Inl e \<Longrightarrow> isValidationError e"
  by (auto simp: getAuthenticationScopes_def split: option.splits authorizationHeader.splits)

lemma checkArchivalRestrictions_error: "checkArchivalRestrictions a p sc = Inl e \<Longrightarrow> isValidationError e"
  by (auto simp: checkArchivalRestrictions_def Let_def split: if_splits)

lemma checkWriteScopes_error: "checkWriteScopes a p sc = Inl e \<Longrightarrow> isValidationError e"
  by (auto simp: checkWriteScopes_def Let_def split: if_splits)

lemma checkDeleteScopes_error: "checkDeleteScopes a p sc = Inl e \<Longrightarrow> isValidationError e"
  by (auto simp: checkDeleteScopes_def Let_def split: if_splits)

lemma checkProofs_exempt:
  "proofsRequired pc = 0 \<or> suffix ''/profile.json'' filename \<Longrightarrow>
   checkProofs pc env address filename readURLPrefix w = (Inr True, w)"
  by (auto simp: checkProofs_def)

lemma archiveCanonicalFile_error:
  assumes "archiveCanonicalFile hub env address p w = (Inl e, w')" "raisesDriverErrors (driver hub)"
  shows "isDriverError e"
proof -
  have rn: "isDriverError e'" if "performRename (driver hub) a d = (Inl e', d')" for a d e' d'
  proof -
    from that have "fst (performRename (driver hub) a d) = Inl e'" by simp
    with assms(2) show ?thesis unfolding raisesDriverErrors_def by blast
  qed
  from assms(1) show ?thesis
    by (auto simp: archiveCanonicalFile_def callDriver_def Let_def
        split: prod.splits sum.splits error.splits dest: rn)
qed

lemma streamUpload_error:
  assumes "streamUpload hub env address p ct len input w = (Inl e, w')" "raisesDriverErrors (driver hub)"
  shows "isDriverError e \<or> isPayloadTooLargeError e"
proof -
  have wr: "isDriverError e' \<or> snd (stream a) = Some e'"
    if "performWrite (driver hub) a d = (Inl e', d')" for a d e' d'
  proof -
    from that have "fst (performWrite (driver hub) a d) = Inl e'" by simp
    with assms(2) show ?thesis unfolding raisesDriverErrors_def by blast
  qed
  from assms(1) show ?thesis
    by (auto simp: streamUpload_def monitorStreamProgress_def callDriver_def awaitBoth_def Let_def
        split: prod.splits sum.splits option.splits if_splits dest!: wr dest: transform_error)
qed

lemma driverError_not_proof: "isDriverError e \<Longrightarrow> \<not> isNotEnoughProofError e"
  by (cases e) auto
lemma validationError_not_proof: "isValidationError e \<Longrightarrow> \<not> isNotEnoughProofError e"
  by (cases e) auto
lemma payloadError_not_proof: "isPayloadTooLargeError e \<Longrightarrow> \<not> isNotEnoughProofError e"
  by (cases e) auto

lemma memoryDriver_raisesDriverErrors: "raisesDriverErrors (memoryDriver urlPrefix pageSize)"
  by (auto simp: raisesDriverErrors_def memoryDriver_def memoryPerformRead_def memoryPerformRename_def
      memoryPerformDelete_def memoryPerformWrite_def split: option.splits)

lemma checkProofs_driver:
  "checkProofs pc env address p r w = (res, w') \<Longrightarrow> driverState w' = driverState w \<and> driverCalls w' = driverCalls w"
  by (auto simp: checkProofs_def fetchProfile_def Let_def split: if_splits option.splits)

lemma checkArchivalRestrictions_value:
  "checkArchivalRestrictions address p sc = Inr restricted \<Longrightarrow> restricted = isArchivalRestricted sc"
  by (auto simp: checkArchivalRestrictions_def Let_def split: if_splits)

lemma callDriver_calls: "driverCalls (snd (callDriver c opn w)) = driverCalls w @ [c]"
  by (simp add: callDriver_def split: prod.splits)

lemma callDriver_result: "fst (callDriver c opn w) = fst (opn (driverState w))"
  by (simp add: callDriver_def split: prod.splits)

lemma floor_plus_half: "\<lfloor>(of_int k :: rat) + 1 / 2\<rfloor> = k"
  by (simp add: floor_eq_iff)

lemma toFixed_of_nat: "toFixed (of_nat n) d = (if 100 < d then Inl RangeError else Inr (of_nat n))"
proof -
  have "(of_nat n :: rat) * 10 ^ d + 1 / 2 = of_int (int n * 10 ^ d) + 1 / 2" by simp
  then have "\<lfloor>(of_nat n :: rat) * 10 ^ d + 1 / 2\<rfloor> = int n * 10 ^ d"
    by (simp only: floor_plus_half)
  then show ?thesis by (simp add: toFixed_def)
qed

lemma bytesToMegabytes_of_nat: "bytesToMegabytes (of_nat n) 4 = Inr (of_nat n)"
  by (simp add: bytesToMegabytes_def toFixed_of_nat)


lemma bytesToMegabytes_numeral [simp]: "bytesToMegabytes (numeral k) 4 = Inr (numeral k)"
  using bytesToMegabytes_of_nat[of "numeral k"] by simp



section \<open>Properties of utils.ts\<close>

lemma toFixed_scaled_ne:
  assumes "d \<le> 100"
  shows "toFixed (of_nat (Suc n) / (1024 * 1024)) d \<noteq> Inr (of_nat (Suc n))"
proof -
  let ?x = "(of_nat (Suc n) :: rat) / (1024 * 1024)"
  have pos: "(0::rat) < 10 ^ d" by simp
  have x_lt: "?x + 1 / 2 < of_nat (Suc n)"
  proof -
    have "(1::rat) \<le> of_nat (Suc n)" by simp
    then show ?thesis by (simp add: field_simps)
  qed
  have "of_int \<lfloor>?x * 10 ^ d + 1 / 2\<rfloor> / 10 ^ d \<le> (?x * 10 ^ d + 1 / 2) / 10 ^ d"
    using pos by (simp add: divide_right_mono)
  also have "\<dots> = ?x + 1 / 2 / 10 ^ d" using pos by (simp add: field_simps)
  also have "\<dots> \<le> ?x + 1 / 2"
  proof -
    have "(1::rat) \<le> 10 ^ d" by simp
    then have "(1 / 2 :: rat) / 10 ^ d \<le> 1 / 2" by (simp add: field_simps)
    then show ?thesis by simp
  qed
  finally have rounded: "of_int \<lfloor>?x * 10 ^ d + 1 / 2\<rfloor> / 10 ^ d < (of_nat (Suc n) :: rat)"
    using x_lt by simp
  have "?x < of_nat (Suc n)" using x_lt by simp
  with rounded assms show ?thesis
    by (auto simp: toFixed_def)
qed

text \<open>
  C9. \<open>bytesToMegabytes\<close> divides by \<open>1024 / 1024\<close>, which is 1: what it rounds to
  \<open>decimals\<close> places is the byte count itself, so a byte count, a whole number, comes back
  unchanged (for every number of decimals that \<^verbatim>\<open>toFixed\<close> accepts; beyond 100 it raises
  \<open>RangeError\<close>). That is not the count divided by \<open>2 ^ 20\<close>: for a positive byte count the
  two agree only where both raise. \<open>megabytesToBytes\<close> multiplies by \<open>1024 * 1024\<close>.
  Numbers are exact rationals here, not doubles.
\<close>

theorem bytesToMegabytes_divides_by_one:
  "bytesToMegabytes b d = toFixed b d
   \<and> bytesToMegabytes (of_nat n) d = (if 100 < d then Inl RangeError else Inr (of_nat n))
   \<and> (bytesToMegabytes (of_nat (Suc n)) d = toFixed (of_nat (Suc n) / (1024 * 1024)) d) = (100 < d)
   \<and> megabytesToBytes m = m * 1024 * 1024"
proof -
  have one: "bytesToMegabytes b d = toFixed b d" for b by (simp add: bytesToMegabytes_def)
  have three: "(bytesToMegabytes (of_nat (Suc n)) d = toFixed (of_nat (Suc n) / (1024 * 1024)) d) = (100 < d)"
  proof (cases "100 < d")
    case True
    then show ?thesis by (simp add: one toFixed_def)
  next
    case False
    then have "d \<le> 100" by simp
    from toFixed_scaled_ne[OF this, of n] False show ?thesis
      by (simp only: one toFixed_of_nat) auto
  qed
  show ?thesis using three by (simp add: one toFixed_of_nat megabytesToBytes_def)
qed

section \<open>The URL rewrite\<close>

lemma rewriteReadURL_eq:
  "rewriteReadURL hub url =
     (if getReadURLPrefix hub \<noteq> driverReadURLPrefix (driver hub) \<and> prefix (driverReadURLPrefix (driver hub)) url
      then getReadURLPrefix hub @ drop (length (driverReadURLPrefix (driver hub))) url else url)"
  by (simp add: rewriteReadURL_def Let_def)

lemma rewrite_twice_sufficient:
  assumes "H = D \<or> \<not> (prefix D H \<or> prefix H D)"
  shows "(if H \<noteq> D \<and> prefix D (if H \<noteq> D \<and> prefix D url then H @ drop (length D) url else url)
          then H @ drop (length D) (if H \<noteq> D \<and> prefix D url then H @ drop (length D) url else url)
          else (if H \<noteq> D \<and> prefix D url then H @ drop (length D) url else url))
         = (if H \<noteq> D \<and> prefix D url then H @ drop (length D) url else url)"
proof (cases "H \<noteq> D \<and> prefix D url")
  case False
  then show ?thesis by auto
next
  case True
  with assms have np: "\<not> prefix D H" "\<not> prefix H D" by auto
  have "\<not> prefix D (H @ drop (length D) url)"
  proof
    assume "prefix D (H @ drop (length D) url)"
    moreover have "prefix H (H @ drop (length D) url)" by simp
    ultimately have "prefix D H \<or> prefix H D" by (rule prefix_same_cases)
    with np show False by simp
  qed
  with True show ?thesis by simp
qed

lemma rewrite_twice_necessary:
  assumes "H \<noteq> D" "prefix D H \<or> prefix H D"
  shows "\<exists>url. (if H \<noteq> D \<and> prefix D (if H \<noteq> D \<and> prefix D url then H @ drop (length D) url else url)
          then H @ drop (length D) (if H \<noteq> D \<and> prefix D url then H @ drop (length D) url else url)
          else (if H \<noteq> D \<and> prefix D url then H @ drop (length D) url else url))
         \<noteq> (if H \<noteq> D \<and> prefix D url then H @ drop (length D) url else url)"
  using assms(2)
proof
  assume "prefix D H"
  then obtain r where H: "H = D @ r" by (auto simp: prefix_def)
  with assms(1) have "r \<noteq> []" by auto
  with H assms(1) show ?thesis by (intro exI[of _ D]) auto
next
  assume "prefix H D"
  then obtain r where D: "D = H @ r" by (auto simp: prefix_def)
  with assms(1) have r: "r \<noteq> []" by auto
  with D assms(1) show ?thesis by (intro exI[of _ "D @ r"]) auto
qed

text \<open>
  C5, amended. The rewrite replaces the driver's prefix by the hub's read prefix when the
  two differ and the URL begins with the driver's prefix, and leaves every other URL as it
  is. Applying it twice equals applying it once for every URL exactly when the two
  prefixes are equal or neither of them begins with the other.
\<close>

theorem rewriteReadURL_idempotent_iff:
  "rewriteReadURL hub url =
     (if getReadURLPrefix hub \<noteq> driverReadURLPrefix (driver hub) \<and> prefix (driverReadURLPrefix (driver hub)) url
      then getReadURLPrefix hub @ drop (length (driverReadURLPrefix (driver hub))) url else url)
   \<and> ((\<forall>u. rewriteReadURL hub (rewriteReadURL hub u) = rewriteReadURL hub u) =
       (getReadURLPrefix hub = driverReadURLPrefix (driver hub) \<or>
        \<not> (prefix (driverReadURLPrefix (driver hub)) (getReadURLPrefix hub) \<or>
            prefix (getReadURLPrefix hub) (driverReadURLPrefix (driver hub)))))"
proof -
  let ?H = "getReadURLPrefix hub" and ?D = "driverReadURLPrefix (driver hub)"
  show ?thesis
  proof (cases "?H = ?D \<or> \<not> (prefix ?D ?H \<or> prefix ?H ?D)")
    case True
    from rewrite_twice_sufficient[OF True] True show ?thesis
      by (simp only: rewriteReadURL_eq) simp
  next
    case False
    then have "?H \<noteq> ?D" "prefix ?D ?H \<or> prefix ?H ?D" by auto
    from rewrite_twice_necessary[OF this] False show ?thesis
      by (simp only: rewriteReadURL_eq) blast
  qed
qed

text \<open>
  C5, as stated, fails: with the read URL \<^verbatim>\<open>http://store/hub/\<close> configured over a driver whose
  prefix is \<^verbatim>\<open>http://store/\<close>, the rewritten URL begins with the driver's prefix again, and a
  second rewrite changes it once more.
\<close>

theorem rewriteReadURL_not_idempotent:
  "rewriteReadURL (exampleHub (exampleConfig\<lparr>configReadURL := Some ''http://store/hub/''\<rparr>))
     (rewriteReadURL (exampleHub (exampleConfig\<lparr>configReadURL := Some ''http://store/hub/''\<rparr>)) ''http://store/a'')
   \<noteq> rewriteReadURL (exampleHub (exampleConfig\<lparr>configReadURL := Some ''http://store/hub/''\<rparr>)) ''http://store/a''"
  by (simp add: rewriteReadURL_def getReadURLPrefix_def readURLPrefixOf_def exampleHub_def exampleConfig_def
      HubServer_def memoryDriver_def Let_def)

theorem rewriteReadURL_idempotent_iff_witness:
  "(\<forall>u. rewriteReadURL (exampleHub (exampleConfig\<lparr>configReadURL := Some ''https://read.example/''\<rparr>))
        (rewriteReadURL (exampleHub (exampleConfig\<lparr>configReadURL := Some ''https://read.example/''\<rparr>)) u)
      = rewriteReadURL (exampleHub (exampleConfig\<lparr>configReadURL := Some ''https://read.example/''\<rparr>)) u)
   \<and> rewriteReadURL (exampleHub (exampleConfig\<lparr>configReadURL := Some ''https://read.example/''\<rparr>))
        ''http://store/1Lbcfr7sAHTD9CgdQo3HTMTkV8LK4ZnX71/foo/bar''
      = ''https://read.example/1Lbcfr7sAHTD9CgdQo3HTMTkV8LK4ZnX71/foo/bar''"
  using rewriteReadURL_idempotent_iff[of "exampleHub (exampleConfig\<lparr>configReadURL := Some ''https://read.example/''\<rparr>)"
      "''http://store/1Lbcfr7sAHTD9CgdQo3HTMTkV8LK4ZnX71/foo/bar''"]
  by (simp add: getReadURLPrefix_def readURLPrefixOf_def exampleHub_def exampleConfig_def
      HubServer_def memoryDriver_def Let_def)

section \<open>The keyed lock\<close>




section \<open>The proof check\<close>

lemma handleRequest_profile_error:
  assumes rejected: "handleRequest hub env address p headers input w = (Inl e, w')"
    and profile: "suffix ''/profile.json'' p"
    and contract: "raisesDriverErrors (driver hub)"
    and same: "cacheDriver (authTimestampCache hub) = driver hub"
  shows "\<not> isNotEnoughProofError e"
  using rejected unfolding handleRequest_def Let_def
proof (cases rule: bindM_InlE)
  case first
  with contract same show ?thesis
    by (auto dest!: getAuthTimestamp_error dest: driverError_not_proof)
next
  case (second ts w1)
  from second(2) show ?thesis
  proof (cases rule: bindM_InlE)
    case first
    then show ?thesis by (auto dest!: validate_error validationError_not_proof)
  next
    case (second u w2)
    from second(2) show ?thesis
    proof (cases rule: bindM_InlE)
      case first
      then show ?thesis by (auto dest!: getAuthenticationScopes_error validationError_not_proof)
    next
      case (second sc w3)
      from second(2) show ?thesis
      proof (cases rule: bindM_InlE)
        case first
        then show ?thesis by (auto dest!: checkArchivalRestrictions_error validationError_not_proof)
      next
        case (second restricted w4)
        from second(2) show ?thesis
        proof (cases rule: bindM_InlE)
          case first
          then show ?thesis by (auto dest!: checkWriteScopes_error validationError_not_proof)
        next
          case (second allowed w5)
          from second(2) show ?thesis
          proof (cases rule: bindM_InlE)
            case first
            with profile show ?thesis by (simp add: checkProofs_exempt)
          next
            case (second proved w6)
            from second(2) contract show ?thesis
              by (auto simp: bytesToMegabytes_4 split: if_splits sum.splits elim!: bindM_InlE
                  dest!: archiveCanonicalFile_error streamUpload_error
                  dest: driverError_not_proof payloadError_not_proof)
          qed
        qed
      qed
    qed
  qed
qed

text \<open>
  C10. \<open>checkProofs\<close> returns true and leaves the state as it was, with no profile
  fetched and whatever the collaborator would answer, when no proof is required or the
  path ends with \<^verbatim>\<open>/profile.json\<close>; a checker built with no configuration requires none.
  So a write to such a path is never rejected with \<open>NotEnoughProofError\<close>, whatever
  \<open>proofsRequired\<close> is, on a hub whose driver raises only a driver's errors and whose
  revocation clock uses the same driver, as the constructor sets it up.
\<close>

theorem checkProofs_exempts_profile:
  "(proofsRequired pc = 0 \<or> suffix ''/profile.json'' filename \<longrightarrow>
      checkProofs pc env address filename readURLPrefix w = (Inr True, w))
   \<and> checkProofs (ProofChecker None) env address filename readURLPrefix w = (Inr True, w)
   \<and> (suffix ''/profile.json'' filePath \<and> raisesDriverErrors (driver hub)
        \<and> cacheDriver (authTimestampCache hub) = driver hub \<longrightarrow>
      \<not> rejectedWith isNotEnoughProofError (handleRequest hub env address filePath headers input w'))"
proof (intro conjI impI)
  assume "proofsRequired pc = 0 \<or> suffix ''/profile.json'' filename"
  then show "checkProofs pc env address filename readURLPrefix w = (Inr True, w)"
    by (rule checkProofs_exempt)
next
  show "checkProofs (ProofChecker None) env address filename readURLPrefix w = (Inr True, w)"
    by (rule checkProofs_exempt) (simp add: ProofChecker_def)
next
  assume a: "suffix ''/profile.json'' filePath \<and> raisesDriverErrors (driver hub)
        \<and> cacheDriver (authTimestampCache hub) = driver hub"
  show "\<not> rejectedWith isNotEnoughProofError (handleRequest hub env address filePath headers input w')"
  proof (cases "handleRequest hub env address filePath headers input w'")
    case (Pair r w'')
    then show ?thesis
    proof (cases r)
      case (Inl e)
      with Pair a show ?thesis by (auto dest: handleRequest_profile_error)
    next
      case (Inr url)
      with Pair show ?thesis by simp
    qed
  qed
qed


theorem checkProofs_exempts_profile_witness:
  "suffix ''/profile.json'' ''app/profile.json''
   \<and> checkProofs (ProofChecker (Some 2)) exampleEnvironment examplePrincipal ''app/profile.json''
         ''http://store/'' (exampleWorld [] []) = (Inr True, exampleWorld [] [])
   \<and> \<not> rejectedWith isNotEnoughProofError
         (handleRequest (HubServer (memoryDriver ''http://store/'' 10) (ProofChecker (Some 2)) exampleConfig)
            exampleEnvironment examplePrincipal ''app/profile.json''
            (exampleHeaders (Some ''5'') (exampleToken 1000 noScopes)) [''hello''] (exampleWorld [] []))
   \<and> rejectedWith isNotEnoughProofError
         (handleRequest (HubServer (memoryDriver ''http://store/'' 10) (ProofChecker (Some 2)) exampleConfig)
            exampleEnvironment examplePrincipal ''app/notes.txt''
            (exampleHeaders (Some ''5'') (exampleToken 1000 noScopes)) [''hello''] (exampleWorld [] []))"
proof -
  let ?hub = "HubServer (memoryDriver ''http://store/'' 10) (ProofChecker (Some 2)) exampleConfig"
  have profile: "suffix ''/profile.json'' ''app/profile.json''"
    by (simp add: suffix_to_prefix)
  have contract: "raisesDriverErrors (driver ?hub)"
    by (simp add: HubServer_def Let_def memoryDriver_raisesDriverErrors)
  have same: "cacheDriver (authTimestampCache ?hub) = driver ?hub"
    by (simp add: HubServer_def AuthTimestampCache_def Let_def)
  have other: "rejectedWith isNotEnoughProofError
         (handleRequest ?hub exampleEnvironment examplePrincipal ''app/notes.txt''
            (exampleHeaders (Some ''5'') (exampleToken 1000 noScopes)) [''hello''] (exampleWorld [] []))"
    by (simp add: suffix_to_prefix handleRequest_def monad_defs example_defs number_defs memory_defs
        clock_defs auth_defs hub_defs Let_def)
  from checkProofs_exempts_profile[where pc = "ProofChecker (Some 2)" and filename = "''app/profile.json''"
      and env = exampleEnvironment and address = examplePrincipal and readURLPrefix = "''http://store/''"
      and w = "exampleWorld [] []" and filePath = "''app/profile.json''" and hub = ?hub
      and headers = "exampleHeaders (Some ''5'') (exampleToken 1000 noScopes)"
      and input = "[''hello'']" and w' = "exampleWorld [] []"]
    profile contract same other
  show ?thesis by simp
qed

section \<open>Delete\<close>

lemma splitOn_nonempty: "splitOn c s \<noteq> []"
  by (induction s) (auto split: list.splits)

lemma splitOn_last:
  "\<exists>dir. s = dir @ last (splitOn c s) \<and> c \<notin> set (last (splitOn c s))
      \<and> (if tl (splitOn c s) = [] then dir = [] else dir \<noteq> [] \<and> last dir = c)"
proof (induction s)
  case Nil
  then show ?case by simp
next
  case (Cons x xs)
  then obtain dir where whole: "dir @ last (splitOn c xs) = xs" and nosep: "c \<notin> set (last (splitOn c xs))"
    and sep: "if tl (splitOn c xs) = [] then dir = [] else dir \<noteq> [] \<and> last dir = c"
    by metis
  obtain part parts where parts: "splitOn c xs = part # parts"
    using splitOn_nonempty[of c xs] by (cases "splitOn c xs") auto
  show ?case
  proof (cases "x = c")
    case True
    have parted: "splitOn c (x # xs) = [] # part # parts" using True parts by simp
    have "x # xs = (c # dir) @ last (splitOn c (x # xs))"
      using whole True unfolding parted parts by simp
    moreover have "c \<notin> set (last (splitOn c (x # xs)))" using nosep unfolding parted parts by simp
    moreover have "last (c # dir) = c" using sep by (auto simp: parts split: if_splits)
    ultimately show ?thesis unfolding parted by (intro exI[of _ "c # dir"]) simp
  next
    case False
    have parted: "splitOn c (x # xs) = (x # part) # parts" using False parts by simp
    show ?thesis
    proof (cases "parts = []")
      case True
      with sep parts have "dir = []" by simp
      with whole parts True have "xs = part" by simp
      with nosep parts True False show ?thesis
        unfolding parted by (intro exI[of _ "[]"]) simp
    next
      case notempty: False
      with sep parts have d: "dir \<noteq> []" "last dir = c" by simp_all
      have "x # xs = (x # dir) @ last (splitOn c (x # xs))"
        using whole notempty unfolding parted parts by simp
      moreover have "c \<notin> set (last (splitOn c (x # xs)))" using nosep notempty unfolding parted parts by simp
      ultimately show ?thesis using d notempty
        unfolding parted by (intro exI[of _ "x # dir"]) simp
    qed
  qed
qed

lemma getFileName_last: "getFileName p = last (splitOn CHR ''/'' p)"
  using splitOn_nonempty[of "CHR ''/''" p] by (simp add: getFileName_def Let_def last_conv_nth)

lemma getFileName_split:
  "\<exists>dir. p = dir @ getFileName p \<and> CHR ''/'' \<notin> set (getFileName p) \<and> (dir = [] \<or> last dir = CHR ''/'')"
  using splitOn_last[of p "CHR ''/''"] unfolding getFileName_last by (auto split: if_splits)

lemma generateUniqueID_form:
  "generateUniqueID rnd = map (\<lambda>k. alphabet ! (rnd k mod 62)) [0..<10]
   \<and> length (generateUniqueID rnd) = 10 \<and> set (generateUniqueID rnd) \<subseteq> set alphabet"
proof -
  have ne: "length alphabet = 62" by (simp add: alphabet_def)
  have "alphabet ! (rnd k mod length alphabet) \<in> set alphabet" for k
    by (rule nth_mem) (simp add: ne)
  then show ?thesis by (auto simp: generateUniqueID_def nanoid_def ne)
qed

lemma getHistoricalFileName_form:
  "\<exists>dir file rand10. p = dir @ file \<and> CHR ''/'' \<notin> set file \<and> (dir = [] \<or> last dir = CHR ''/'')
      \<and> rand10 = map (\<lambda>k. alphabet ! (randomIndex env k mod 62)) [0..<10]
      \<and> length rand10 = 10 \<and> set rand10 \<subseteq> set alphabet
      \<and> getHistoricalFileName env p = dir @ ''.history.'' @ showNat (dateNow env) @ ''.'' @ rand10 @ ''.'' @ file"
proof -
  from getFileName_split[of p] obtain dir where dir: "p = dir @ getFileName p"
    "CHR ''/'' \<notin> set (getFileName p)" "dir = [] \<or> last dir = CHR ''/''" by blast
  from dir(1) have "take (length p - length (getFileName p)) p = dir"
    by (metis add_diff_cancel_right' append_eq_conv_conj length_append)
  then have "getHistoricalFileName env p =
      dir @ ''.history.'' @ showNat (dateNow env) @ ''.'' @ generateUniqueID (randomIndex env) @ ''.'' @ getFileName p"
    by (simp add: getHistoricalFileName_def Let_def)
  with dir generateUniqueID_form[of "randomIndex env"] show ?thesis by blast
qed

lemma digitsValue_snoc:
  "digitsValue radix (ds @ [c]) = digitsValue radix ds * radix + (case digitValue c of None \<Rightarrow> 0 | Some v \<Rightarrow> v)"
  by (simp add: digitsValue_def)

lemma decimal_digit:
  assumes "n < 10"
  shows "digitValue (''0123456789'' ! n) = Some n \<and> ((''0123456789'' ! n = CHR ''0'') = (n = 0))"
proof -
  have "\<forall>k \<in> set [0..<10]. digitValue (''0123456789'' ! k) = Some k \<and> ((''0123456789'' ! k = CHR ''0'') = (k = 0))"
    by (simp add: upt_rec digitValue_def)
  moreover from assms have "n \<in> set [0..<10]" by simp
  ultimately show ?thesis by blast
qed

text \<open>
  \<open>showNat\<close> is the decimal numeral of its argument: digits only, no leading zero but for
  zero itself, and the number of value read back.
\<close>

lemma showNat_decimal:
  "showNat n \<noteq> [] \<and> list_all (isDigitOf 10) (showNat n) \<and> digitsValue 10 (showNat n) = n
   \<and> ((hd (showNat n) = CHR ''0'') = (n = 0))"
proof (induction n rule: showNat.induct)
  case (1 n)
  show ?case
  proof (cases "n < 10")
    case True
    then have one: "showNat n = [''0123456789'' ! n]" by (simp add: showNat.simps)
    from True show ?thesis
      unfolding one by (simp add: isDigitOf_def digitsValue_def decimal_digit)
  next
    case False
    then have more: "showNat n = showNat (n div 10) @ [''0123456789'' ! (n mod 10)]"
      by (subst showNat.simps) simp
    from False 1 have ih: "showNat (n div 10) \<noteq> []" "list_all (isDigitOf 10) (showNat (n div 10))"
      "digitsValue 10 (showNat (n div 10)) = n div 10"
      "(hd (showNat (n div 10)) = CHR ''0'') = (n div 10 = 0)"
      by simp_all
    have digit: "digitValue (''0123456789'' ! (n mod 10)) = Some (n mod 10)"
      using decimal_digit[of "n mod 10"] by simp
    then have last_digit: "isDigitOf 10 (''0123456789'' ! (n mod 10))"
      by (simp add: isDigitOf_def)
    from False have "n div 10 \<noteq> 0" by simp
    with ih False last_digit show ?thesis
      unfolding more by (simp add: digitsValue_snoc digit)
  qed
qed

text \<open>
  C7, amended. A delete request that passes the prelude (the revocation clock is read,
  the token validates, the archival and the delete scopes match, the proof check passes)
  makes one driver call after the clock is read. Under archival scopes that call is
  \<open>performRename\<close> of the path to its historical name, and no \<open>performDelete\<close>; without
  them it is \<open>performDelete\<close>. The outcome of the request is the outcome of that call, so
  \<open>DoesNotExist\<close> from the driver reaches the caller. The historical name is the directory
  part of the path (empty, or ending in a slash), \<^verbatim>\<open>.history.\<close>, the clock \<^verbatim>\<open>Date.now()\<close>
  as a decimal numeral (its digits read back are the clock), a dot, ten characters of the
  alphabet, chosen by the random source, a dot and the file name.
\<close>

theorem handleDelete_archives_or_deletes:
  "getAuthTimestamp (authTimestampCache hub) address w = (Inr oldest, w1) \<and>
   validate hub address headers (Some oldest) = Inr () \<and>
   getAuthenticationScopes (authorization headers) = Inr sc \<and>
   checkArchivalRestrictions address p sc = Inr restricted \<and>
   checkDeleteScopes address p sc = Inr () \<and>
   checkProofs (proofChecker hub) env address p (getReadURLPrefix hub) w1 = (Inr True, w2)
   \<longrightarrow>
   handleDelete hub env address p headers w =
     (if isArchivalRestricted sc
      then callDriver (PerformRename address p (getHistoricalFileName env p))
             (performRename (driver hub)
                \<lparr>storageTopLevel = address, path = p, newPath = getHistoricalFileName env p\<rparr>) w2
      else callDriver (PerformDelete address p)
             (performDelete (driver hub) \<lparr>storageTopLevel = address, path = p\<rparr>) w2) \<and>
   fst (handleDelete hub env address p headers w) =
     (if isArchivalRestricted sc
      then fst (performRename (driver hub)
                  \<lparr>storageTopLevel = address, path = p, newPath = getHistoricalFileName env p\<rparr> (driverState w1))
      else fst (performDelete (driver hub) \<lparr>storageTopLevel = address, path = p\<rparr> (driverState w1))) \<and>
   driverCalls (snd (handleDelete hub env address p headers w)) =
     driverCalls w1
     @ [if isArchivalRestricted sc then PerformRename address p (getHistoricalFileName env p)
        else PerformDelete address p] \<and>
   (\<exists>dir file unixMillis rand10.
      p = dir @ file \<and> CHR ''/'' \<notin> set file \<and> (dir = [] \<or> last dir = CHR ''/'') \<and>
      unixMillis \<noteq> [] \<and> list_all (isDigitOf 10) unixMillis \<and> digitsValue 10 unixMillis = dateNow env \<and>
      (hd unixMillis = CHR ''0'') = (dateNow env = 0) \<and>
      rand10 = map (\<lambda>k. alphabet ! (randomIndex env k mod 62)) [0..<10] \<and>
      length rand10 = 10 \<and> set rand10 \<subseteq> set alphabet \<and>
      getHistoricalFileName env p =
        dir @ ''.history.'' @ unixMillis @ ''.'' @ rand10 @ ''.'' @ file)"
proof (intro impI, elim conjE)
  assume clock: "getAuthTimestamp (authTimestampCache hub) address w = (Inr oldest, w1)"
    and valid: "validate hub address headers (Some oldest) = Inr ()"
    and sc: "getAuthenticationScopes (authorization headers) = Inr sc"
    and arch: "checkArchivalRestrictions address p sc = Inr restricted"
    and del: "checkDeleteScopes address p sc = Inr ()"
    and proofs: "checkProofs (proofChecker hub) env address p (getReadURLPrefix hub) w1 = (Inr True, w2)"
  let ?rename = "callDriver (PerformRename address p (getHistoricalFileName env p))
             (performRename (driver hub)
                \<lparr>storageTopLevel = address, path = p, newPath = getHistoricalFileName env p\<rparr>) w2"
  let ?delete = "callDriver (PerformDelete address p)
             (performDelete (driver hub) \<lparr>storageTopLevel = address, path = p\<rparr>) w2"
  from arch have r: "restricted = isArchivalRestricted sc" by (rule checkArchivalRestrictions_value)
  have run: "handleDelete hub env address p headers w = (if isArchivalRestricted sc then ?rename else ?delete)"
    using clock valid sc arch del proofs r
    by (simp add: handleDelete_def Let_def)
  from proofs have same: "driverState w2 = driverState w1" "driverCalls w2 = driverCalls w1"
    using checkProofs_driver by blast+
  from getHistoricalFileName_form[of p env] obtain dir base rand10 where
    form: "p = dir @ base" "CHR ''/'' \<notin> set base" "dir = [] \<or> last dir = CHR ''/''"
      "rand10 = map (\<lambda>k. alphabet ! (randomIndex env k mod 62)) [0..<10]"
      "length rand10 = 10" "set rand10 \<subseteq> set alphabet"
      "getHistoricalFileName env p = dir @ ''.history.'' @ showNat (dateNow env) @ ''.'' @ rand10 @ ''.'' @ base"
    by blast
  have name: "\<exists>dir file unixMillis rand10.
      p = dir @ file \<and> CHR ''/'' \<notin> set file \<and> (dir = [] \<or> last dir = CHR ''/'') \<and>
      unixMillis \<noteq> [] \<and> list_all (isDigitOf 10) unixMillis \<and> digitsValue 10 unixMillis = dateNow env \<and>
      (hd unixMillis = CHR ''0'') = (dateNow env = 0) \<and>
      rand10 = map (\<lambda>k. alphabet ! (randomIndex env k mod 62)) [0..<10] \<and>
      length rand10 = 10 \<and> set rand10 \<subseteq> set alphabet \<and>
      getHistoricalFileName env p =
        dir @ ''.history.'' @ unixMillis @ ''.'' @ rand10 @ ''.'' @ file"
    using form showNat_decimal[of "dateNow env"]
    by (intro exI[of _ dir] exI[of _ base] exI[of _ "showNat (dateNow env)"] exI[of _ rand10]) simp
  show "handleDelete hub env address p headers w = (if isArchivalRestricted sc then ?rename else ?delete) \<and>
   fst (handleDelete hub env address p headers w) =
     (if isArchivalRestricted sc
      then fst (performRename (driver hub)
                  \<lparr>storageTopLevel = address, path = p, newPath = getHistoricalFileName env p\<rparr> (driverState w1))
      else fst (performDelete (driver hub) \<lparr>storageTopLevel = address, path = p\<rparr> (driverState w1))) \<and>
   driverCalls (snd (handleDelete hub env address p headers w)) =
     driverCalls w1
     @ [if isArchivalRestricted sc then PerformRename address p (getHistoricalFileName env p)
        else PerformDelete address p] \<and>
   (\<exists>dir file unixMillis rand10.
      p = dir @ file \<and> CHR ''/'' \<notin> set file \<and> (dir = [] \<or> last dir = CHR ''/'') \<and>
      unixMillis \<noteq> [] \<and> list_all (isDigitOf 10) unixMillis \<and> digitsValue 10 unixMillis = dateNow env \<and>
      (hd unixMillis = CHR ''0'') = (dateNow env = 0) \<and>
      rand10 = map (\<lambda>k. alphabet ! (randomIndex env k mod 62)) [0..<10] \<and>
      length rand10 = 10 \<and> set rand10 \<subseteq> set alphabet \<and>
      getHistoricalFileName env p =
        dir @ ''.history.'' @ unixMillis @ ''.'' @ rand10 @ ''.'' @ file)"
  proof (cases "isArchivalRestricted sc")
    case True
    with name show ?thesis
      unfolding run by (simp add: callDriver_calls callDriver_result same)
  next
    case False
    with name show ?thesis
      unfolding run by (simp add: callDriver_calls callDriver_result same)
  qed
qed

text \<open>
  C7, as stated for every delete request, fails for a request that does not pass the
  proof check: on a hub that requires one social proof, a delete with a valid token and no
  scopes, for a principal whose profile shows no valid proof, is refused with
  \<open>NotEnoughProofError\<close>, no \<open>performDelete\<close> is made and the object stays.
\<close>

theorem handleDelete_without_proofs_deletes_nothing:
  "handleDelete (HubServer (memoryDriver ''http://store/'' 10) (ProofChecker (Some 1)) exampleConfig)
     (exampleEnvironment\<lparr>profileProofs := (\<lambda>url address. Some [])\<rparr>) examplePrincipal ''foo/bar''
     (exampleHeaders None (exampleToken 1000 noScopes))
     (exampleWorld [((examplePrincipal, ''foo/bar''), (''text/plain'', ''hello''))] [(examplePrincipal, 0)])
   = (Inl (NotEnoughProofError ''Not enough social proofs for gaia hub writes''),
      (exampleWorld [((examplePrincipal, ''foo/bar''), (''text/plain'', ''hello''))] [(examplePrincipal, 0)])
        \<lparr>fetchedURLs := [''http://store/1Lbcfr7sAHTD9CgdQo3HTMTkV8LK4ZnX71/profile.json'']\<rparr>)
   \<and> driverCalls (snd (handleDelete
        (HubServer (memoryDriver ''http://store/'' 10) (ProofChecker (Some 1)) exampleConfig)
        (exampleEnvironment\<lparr>profileProofs := (\<lambda>url address. Some [])\<rparr>) examplePrincipal ''foo/bar''
        (exampleHeaders None (exampleToken 1000 noScopes))
        (exampleWorld [((examplePrincipal, ''foo/bar''), (''text/plain'', ''hello''))] [(examplePrincipal, 0)])))
     = []"
  by (simp add: handleDelete_def suffix_to_prefix monad_defs example_defs memory_defs clock_defs auth_defs
      hub_defs Let_def)

theorem handleDelete_archives_or_deletes_witness:
  "fst (handleDelete (exampleHub exampleConfig) exampleEnvironment examplePrincipal ''foo/bar''
          (exampleHeaders None (exampleToken 1000 (noScopes\<lparr>writeArchivalPrefixes := [''foo/'']\<rparr>)))
          (exampleWorld [] [(examplePrincipal, 0)])) = Inl DoesNotExist
   \<and> driverCalls (snd (handleDelete (exampleHub exampleConfig) exampleEnvironment examplePrincipal ''foo/bar''
          (exampleHeaders None (exampleToken 1000 (noScopes\<lparr>writeArchivalPrefixes := [''foo/'']\<rparr>)))
          (exampleWorld [] [(examplePrincipal, 0)])))
       = [PerformRename examplePrincipal ''foo/bar'' ''foo/.history.1600000000000.07ELSZgnu1.bar'']
   \<and> handleDelete (exampleHub exampleConfig) exampleEnvironment examplePrincipal ''foo/bar''
          (exampleHeaders None (exampleToken 1000 noScopes))
          (exampleWorld [((examplePrincipal, ''foo/bar''), (''text/plain'', ''hello''))] [(examplePrincipal, 0)])
       = (Inr (), (exampleWorld [] [(examplePrincipal, 0)])\<lparr>driverCalls := [PerformDelete examplePrincipal ''foo/bar'']\<rparr>)"
proof -
  let ?hub = "exampleHub exampleConfig"
  let ?arch = "noScopes\<lparr>writeArchivalPrefixes := [''foo/'']\<rparr>"
  let ?w = "exampleWorld [] [(examplePrincipal, 0)]"
  let ?w' = "exampleWorld [((examplePrincipal, ''foo/bar''), (''text/plain'', ''hello''))] [(examplePrincipal, 0)]"
  have pre1:
    "getAuthTimestamp (authTimestampCache ?hub) examplePrincipal ?w = (Inr 0, ?w) \<and>
     validate ?hub examplePrincipal (exampleHeaders None (exampleToken 1000 ?arch)) (Some 0) = Inr () \<and>
     getAuthenticationScopes (authorization (exampleHeaders None (exampleToken 1000 ?arch))) = Inr ?arch \<and>
     checkArchivalRestrictions examplePrincipal ''foo/bar'' ?arch = Inr True \<and>
     checkDeleteScopes examplePrincipal ''foo/bar'' ?arch = Inr () \<and>
     checkProofs (proofChecker ?hub) exampleEnvironment examplePrincipal ''foo/bar'' (getReadURLPrefix ?hub) ?w
       = (Inr True, ?w)"
    by (simp add: monad_defs example_defs memory_defs clock_defs auth_defs hub_defs Let_def)
  have pre2:
    "getAuthTimestamp (authTimestampCache ?hub) examplePrincipal ?w' = (Inr 0, ?w') \<and>
     validate ?hub examplePrincipal (exampleHeaders None (exampleToken 1000 noScopes)) (Some 0) = Inr () \<and>
     getAuthenticationScopes (authorization (exampleHeaders None (exampleToken 1000 noScopes))) = Inr noScopes \<and>
     checkArchivalRestrictions examplePrincipal ''foo/bar'' noScopes = Inr False \<and>
     checkDeleteScopes examplePrincipal ''foo/bar'' noScopes = Inr () \<and>
     checkProofs (proofChecker ?hub) exampleEnvironment examplePrincipal ''foo/bar'' (getReadURLPrefix ?hub) ?w'
       = (Inr True, ?w')"
    by (simp add: monad_defs example_defs memory_defs clock_defs auth_defs hub_defs Let_def)
  have name: "getHistoricalFileName exampleEnvironment ''foo/bar'' = ''foo/.history.1600000000000.07ELSZgnu1.bar''"
    by (simp add: hub_defs example_defs upt_rec)
  from handleDelete_archives_or_deletes[THEN mp, OF pre1] handleDelete_archives_or_deletes[THEN mp, OF pre2] show ?thesis
    by (simp add: upt_rec callDriver_def example_defs memory_defs hub_defs isArchivalRestricted_def Let_def)
qed

section \<open>List\<close>

lemma filter_empty_iff_all: "(filter (\<lambda>e. \<not> P e) xs = []) = list_all P xs"
  by (induction xs) auto

lemma filterHistorical_page: "page (filterHistorical restricted nameOf listed) = page listed"
  by (simp add: filterHistorical_def Let_def)

lemma filterHistorical_unrestricted:
  "entries (filterHistorical False nameOf listed) = map Some (entries listed)"
  by (simp add: filterHistorical_def)

lemma filterHistorical_restricted:
  "entries (filterHistorical True nameOf listed) =
     (if entries listed \<noteq> [] \<and> list_all (\<lambda>entry. isHistoricalFile (nameOf entry)) (entries listed)
         \<and> (\<exists>cursor. page listed = Some cursor \<and> cursor \<noteq> [])
      then [None]
      else map Some (filter (\<lambda>entry. \<not> isHistoricalFile (nameOf entry)) (entries listed)))"
  by (auto simp: filterHistorical_def Let_def truthy_def filter_empty_iff_all split: option.splits)

text \<open>
  C8, amended. A list request whose token validates is answered with the driver's page,
  whatever the write and delete scopes of the token are: only the presence of archival
  scopes matters, no scope is matched against a path. Without archival scopes the page
  is returned as it is. With them every entry whose file name begins with \<^verbatim>\<open>.history.\<close>
  is left out, and when that empties a page that was not empty and whose cursor is
  neither \<^verbatim>\<open>null\<close> nor the empty string, the entries are the one \<^verbatim>\<open>null\<close> marker.
\<close>

theorem handleListFiles_filters_historical:
  "(getAuthTimestamp (authTimestampCache hub) address w = (Inr oldest, w1) \<and>
    getAuthenticationScopes (authorization headers) = Inr sc \<and>
    validate hub address headers (Some oldest) = Inr ()
    \<longrightarrow>
    handleListFiles hub address pageRequested False headers w =
      (case callDriver (ListFiles address pageRequested)
              (listFiles (driver hub) \<lparr>pathPrefix = address, pageArg = pageRequested\<rparr>) w1 of
         (Inl e, w2) \<Rightarrow> (Inl e, w2)
       | (Inr listed, w2) \<Rightarrow> (Inr (Inl (filterHistorical (isArchivalRestricted sc) (\<lambda>entry. entry) listed)), w2)) \<and>
    handleListFiles hub address pageRequested True headers w =
      (case callDriver (ListFilesStat address pageRequested)
              (listFilesStat (driver hub) \<lparr>pathPrefix = address, pageArg = pageRequested\<rparr>) w1 of
         (Inl e, w2) \<Rightarrow> (Inl e, w2)
       | (Inr listed, w2) \<Rightarrow> (Inr (Inr (filterHistorical (isArchivalRestricted sc) name listed)), w2)))
   \<and> page (filterHistorical restricted nameOf listed) = page listed
   \<and> entries (filterHistorical False nameOf listed) = map Some (entries listed)
   \<and> entries (filterHistorical True nameOf listed) =
       (if entries listed \<noteq> [] \<and> list_all (\<lambda>entry. isHistoricalFile (nameOf entry)) (entries listed)
           \<and> (\<exists>cursor. page listed = Some cursor \<and> cursor \<noteq> [])
        then [None]
        else map Some (filter (\<lambda>entry. \<not> isHistoricalFile (nameOf entry)) (entries listed)))"
proof (intro conjI impI)
  assume pre: "getAuthTimestamp (authTimestampCache hub) address w = (Inr oldest, w1) \<and>
    getAuthenticationScopes (authorization headers) = Inr sc \<and>
    validate hub address headers (Some oldest) = Inr ()"
  then show "handleListFiles hub address pageRequested False headers w =
      (case callDriver (ListFiles address pageRequested)
              (listFiles (driver hub) \<lparr>pathPrefix = address, pageArg = pageRequested\<rparr>) w1 of
         (Inl e, w2) \<Rightarrow> (Inl e, w2)
       | (Inr listed, w2) \<Rightarrow> (Inr (Inl (filterHistorical (isArchivalRestricted sc) (\<lambda>entry. entry) listed)), w2))"
    by (simp add: handleListFiles_def monad_defs Let_def split: prod.splits sum.splits)
  from pre show "handleListFiles hub address pageRequested True headers w =
      (case callDriver (ListFilesStat address pageRequested)
              (listFilesStat (driver hub) \<lparr>pathPrefix = address, pageArg = pageRequested\<rparr>) w1 of
         (Inl e, w2) \<Rightarrow> (Inl e, w2)
       | (Inr listed, w2) \<Rightarrow> (Inr (Inr (filterHistorical (isArchivalRestricted sc) name listed)), w2))"
    by (simp add: handleListFiles_def monad_defs Let_def split: prod.splits sum.splits)
qed (rule filterHistorical_page filterHistorical_unrestricted filterHistorical_restricted)+

text \<open>
  C8, as stated, fails for a cursor that is not \<^verbatim>\<open>null\<close> but empty: the code tests
  \<^verbatim>\<open>if (... && listFileResult.page)\<close>, and the empty string is falsy, so the emptied page
  gets no marker.
\<close>

theorem handleListFiles_empty_cursor_no_marker:
  "handleListFiles
     (HubServer (listingDriver \<lparr>entries = [''foo/.history.1600000000000.07ELSZgnu1.bar''], page = Some ''''\<rparr>)
        (ProofChecker None) exampleConfig)
     examplePrincipal None False
     (exampleHeaders None (exampleToken 1000 (noScopes\<lparr>writeArchivalPrefixes := [''foo/'']\<rparr>)))
     (exampleWorld [] [(examplePrincipal, 0)])
   = (Inr (Inl \<lparr>entries = [], page = Some ''''\<rparr>),
      (exampleWorld [] [(examplePrincipal, 0)])\<lparr>driverCalls := [ListFiles examplePrincipal None]\<rparr>)"
  by (simp add: handleListFiles_def listingDriver_def monad_defs example_defs memory_defs clock_defs auth_defs
      hub_defs splitOn.simps Let_def)

theorem handleListFiles_filters_historical_witness:
  "handleListFiles
     (HubServer (listingDriver \<lparr>entries = [''foo/.history.1600000000000.07ELSZgnu1.bar''], page = Some ''10''\<rparr>)
        (ProofChecker None) exampleConfig)
     examplePrincipal None False
     (exampleHeaders None (exampleToken 1000 (noScopes\<lparr>writeArchivalPrefixes := [''foo/'']\<rparr>)))
     (exampleWorld [] [(examplePrincipal, 0)])
   = (Inr (Inl \<lparr>entries = [None], page = Some ''10''\<rparr>),
      (exampleWorld [] [(examplePrincipal, 0)])\<lparr>driverCalls := [ListFiles examplePrincipal None]\<rparr>)
   \<and> entries (filterHistorical True (\<lambda>entry. entry)
        \<lparr>entries = [''foo/.history.1600000000000.07ELSZgnu1.bar'', ''foo/bar'', ''.history.txt''], page = None\<rparr>)
     = [Some ''foo/bar'']"
proof -
  let ?hub = "HubServer (listingDriver \<lparr>entries = [''foo/.history.1600000000000.07ELSZgnu1.bar''], page = Some ''10''\<rparr>)
        (ProofChecker None) exampleConfig"
  let ?arch = "noScopes\<lparr>writeArchivalPrefixes := [''foo/'']\<rparr>"
  let ?w = "exampleWorld [] [(examplePrincipal, 0)]"
  have pre: "getAuthTimestamp (authTimestampCache ?hub) examplePrincipal ?w = (Inr 0, ?w) \<and>
    getAuthenticationScopes (authorization (exampleHeaders None (exampleToken 1000 ?arch))) = Inr ?arch \<and>
    validate ?hub examplePrincipal (exampleHeaders None (exampleToken 1000 ?arch)) (Some 0) = Inr ()"
    by (simp add: monad_defs example_defs clock_defs auth_defs hub_defs Let_def)
  have hist: "isHistoricalFile ''foo/.history.1600000000000.07ELSZgnu1.bar''"
    "\<not> isHistoricalFile ''foo/bar''" "isHistoricalFile ''.history.txt''"
    by (simp_all add: isHistoricalFile_def getFileName_def Let_def)
  from handleListFiles_filters_historical[where hub = ?hub and address = examplePrincipal and w = ?w and oldest = 0 and ?w1.0 = ?w
      and headers = "exampleHeaders None (exampleToken 1000 ?arch)" and sc = ?arch and pageRequested = None
      and nameOf = "\<lambda>entry. entry"
      and listed = "\<lparr>entries = [''foo/.history.1600000000000.07ELSZgnu1.bar'', ''foo/bar'', ''.history.txt''], page = None\<rparr>"]
    pre hist
  show ?thesis
    by (simp add: listingDriver_def callDriver_def example_defs memory_defs hub_defs isArchivalRestricted_def
        filterHistorical_def truthy_def Let_def)
qed

section \<open>Write scopes\<close>

lemma truthy_find:
  "[] \<notin> set xs \<Longrightarrow> truthy (find P xs) = (\<exists>x\<in>set xs. P x)"
  by (induction xs) (auto simp: truthy_def)

lemma truthy_find_eq:
  "truthy (find (\<lambda>q. p = q) xs) = (p \<in> set xs \<and> p \<noteq> [])"
  by (induction xs) (auto simp: truthy_def)

lemma checkWriteScopes_matches:
  assumes "[] \<notin> set (writePrefixes sc)" "p \<noteq> []"
  shows "(checkWriteScopes address p sc = Inr ()) =
         ((writePrefixes sc = [] \<and> writePaths sc = []) \<or> (\<exists>q\<in>set (writePrefixes sc). prefix q p)
          \<or> p \<in> set (writePaths sc))"
  using assms by (auto simp: checkWriteScopes_def Let_def truthy_find truthy_find_eq)

lemma checkArchivalRestrictions_matches:
  assumes "[] \<notin> set (writeArchivalPrefixes sc)" "p \<noteq> []"
  shows "(\<exists>restricted. checkArchivalRestrictions address p sc = Inr restricted) =
         ((writeArchivalPrefixes sc = [] \<and> writeArchivalPaths sc = [])
          \<or> (\<exists>q\<in>set (writeArchivalPrefixes sc). prefix q p) \<or> p \<in> set (writeArchivalPaths sc))"
  using assms by (auto simp: checkArchivalRestrictions_def isArchivalRestricted_def Let_def truthy_find truthy_find_eq)

text \<open>
  C1. The code at an input where it departs from the claim: a token whose only scope is
  the write prefix \<^verbatim>\<open>""\<close>. The empty string is a prefix of \<^verbatim>\<open>foo/bar\<close>, but \<^verbatim>\<open>find\<close> returns
  the matching element, the empty string, and \<^verbatim>\<open>!!""\<close> is false: the request fails with
  \<open>ValidationError\<close>. With the prefix \<^verbatim>\<open>foo/\<close> the same request is written. The lemmas
  above give the match the source's comments describe, for scopes that are not empty.
\<close>

theorem handleRequest_empty_prefix_scope_rejected:
  "prefix '''' ''foo/bar'' \<and>
   handleRequest (exampleHub exampleConfig) exampleEnvironment examplePrincipal ''foo/bar''
     (exampleHeaders (Some ''5'') (exampleToken 1000 (noScopes\<lparr>writePrefixes := ['''']\<rparr>)))
     [''hello''] (exampleWorld [] [(examplePrincipal, 0)])
   = (Inl (ValidationError ''Address 1Lbcfr7sAHTD9CgdQo3HTMTkV8LK4ZnX71 not authorized to write to foo/bar by scopes''),
      exampleWorld [] [(examplePrincipal, 0)]) \<and>
   handleRequest (exampleHub exampleConfig) exampleEnvironment examplePrincipal ''foo/bar''
     (exampleHeaders (Some ''5'') (exampleToken 1000 (noScopes\<lparr>writePrefixes := [''foo/'']\<rparr>)))
     [''hello''] (exampleWorld [] [(examplePrincipal, 0)])
   = (Inr ''http://store/1Lbcfr7sAHTD9CgdQo3HTMTkV8LK4ZnX71/foo/bar'',
      (exampleWorld [((examplePrincipal, ''foo/bar''), (''application/octet-stream'', ''hello''))]
         [(examplePrincipal, 0)])\<lparr>driverCalls := [PerformWrite examplePrincipal ''foo/bar'']\<rparr>)"
  by (simp add: handleRequest_def monad_defs example_defs number_defs memory_defs clock_defs auth_defs
      hub_defs Let_def)

section \<open>Revocation\<close>

lemma revoked_token_fails:
  "iat t < oldest \<Longrightarrow> authorization headers = Some (Bearer t) \<Longrightarrow>
   \<exists>msg. validate hub address headers (Some oldest) = Inl (ValidationError msg)"
  by (simp add: validate_def validateAuthorizationHeader_def)

lemma validate_without_clock:
  "validate hub address (headers\<lparr>authorization := Some (Bearer (t\<lparr>iat := issued\<rparr>))\<rparr>) None =
   validate hub address (headers\<lparr>authorization := Some (Bearer t)\<rparr>) None"
  by (simp add: validate_def validateAuthorizationHeader_def)

lemma handlers_reject_revoked:
  assumes clock: "getAuthTimestamp (authTimestampCache hub) address w = (Inr oldest, w1)"
    and bearer: "authorization headers = Some (Bearer t)"
    and old: "iat t < oldest"
  shows "rejectedWith isValidationError (handleRequest hub env address p headers input w)
       \<and> rejectedWith isValidationError (handleDelete hub env address p headers w)
       \<and> rejectedWith isValidationError (handleListFiles hub address pageRequested stat headers w)"
proof -
  from revoked_token_fails[OF old bearer] obtain msg
    where "validate hub address headers (Some oldest) = Inl (ValidationError msg)" by blast
  with clock bearer show ?thesis
    by (simp add: handleRequest_def handleDelete_def handleListFiles_def getAuthenticationScopes_def)
qed

lemma handleAuthBump_ignores_iat:
  "handleAuthBump hub address ts (headers\<lparr>authorization := Some (Bearer (t\<lparr>iat := issued\<rparr>))\<rparr>) w =
   handleAuthBump hub address ts (headers\<lparr>authorization := Some (Bearer t)\<rparr>) w"
  by (simp add: handleAuthBump_def validate_without_clock)

text \<open>
  C2. The code at an input where it departs from the claim. A first \<open>handleAuthBump\<close>
  sets the clock of the principal to 1000. A token issued at 999 is then rejected by
  \<open>handleRequest\<close>, \<open>handleDelete\<close> and \<open>handleListFiles\<close>, which read the clock and pass
  it to \<open>validate\<close>. \<open>handleAuthBump\<close> calls \<open>validate\<close> with no timestamp: the same
  token is accepted there and moves the clock to 5000.
\<close>

theorem handleAuthBump_accepts_revoked_token:
  "handleAuthBump (exampleHub exampleConfig) examplePrincipal 1000
     (exampleHeaders None (exampleToken 1500 noScopes)) (exampleWorld [] [])
   = (Inr (),
      (exampleWorld [((examplePrincipal, ''.authTimestamp''), (''application/json'', timestampJSON 1000))]
         [(examplePrincipal, 1000)])
        \<lparr>driverCalls := [PerformRead examplePrincipal ''.authTimestamp'',
                          PerformWrite examplePrincipal ''.authTimestamp'']\<rparr>) \<and>
   fst (handleRequest (exampleHub exampleConfig) exampleEnvironment examplePrincipal ''foo/bar''
          (exampleHeaders (Some ''5'') (exampleToken 999 noScopes)) [''hello'']
          (exampleWorld [((examplePrincipal, ''.authTimestamp''), (''application/json'', timestampJSON 1000))]
             [(examplePrincipal, 1000)]))
   = Inl (ValidationError ''Revoked'') \<and>
   fst (handleDelete (exampleHub exampleConfig) exampleEnvironment examplePrincipal ''foo/bar''
          (exampleHeaders None (exampleToken 999 noScopes))
          (exampleWorld [((examplePrincipal, ''.authTimestamp''), (''application/json'', timestampJSON 1000))]
             [(examplePrincipal, 1000)]))
   = Inl (ValidationError ''Revoked'') \<and>
   fst (handleListFiles (exampleHub exampleConfig) examplePrincipal None False
          (exampleHeaders None (exampleToken 999 noScopes))
          (exampleWorld [((examplePrincipal, ''.authTimestamp''), (''application/json'', timestampJSON 1000))]
             [(examplePrincipal, 1000)]))
   = Inl (ValidationError ''Revoked'') \<and>
   handleAuthBump (exampleHub exampleConfig) examplePrincipal 5000
     (exampleHeaders None (exampleToken 999 noScopes))
     (exampleWorld [((examplePrincipal, ''.authTimestamp''), (''application/json'', timestampJSON 1000))]
        [(examplePrincipal, 1000)])
   = (Inr (),
      (exampleWorld [((examplePrincipal, ''.authTimestamp''), (''application/json'', timestampJSON 5000))]
         [(examplePrincipal, 5000)])
        \<lparr>driverCalls := [PerformWrite examplePrincipal ''.authTimestamp'']\<rparr>)"
  by (simp add: handleRequest_def handleDelete_def handleListFiles_def handleAuthBump_def
      monad_defs example_defs number_defs memory_defs clock_defs auth_defs hub_defs Let_def)

section \<open>Upload: the declared length\<close>




section \<open>Upload: the observed length\<close>








end
